theory Spec2Isabelle
  imports Complex_Main "HOL-Library.Monad_Syntax"
begin

section \<open>JavaScript values and the built-in operations the validator uses\<close>

text \<open>
  The validator receives \<^verbatim>\<open>manifest: any\<close>, the result of \<^verbatim>\<open>JSON.parse\<close>, so the
  manifest is modelled as a JavaScript value and every operation of the source on it
  follows ECMAScript on that value, including the coercions and the \<^verbatim>\<open>TypeError\<close>s.

  A number is a double. Every finite double is a rational, \<^verbatim>\<open>-0\<close> and \<^verbatim>\<open>0\<close> are both
  \<open>Finite 0\<close> (the source never tells them apart).
\<close>

datatype number = Finite rat | PosInfinity | NegInfinity | NaN

text \<open>
  A string is a HOL string, one \<^typ>\<open>char\<close> for each UTF-16 code unit; the model covers the
  strings whose code units are below 256. An object is the list of its own enumerable
  properties in the order \<^verbatim>\<open>Object.entries\<close> lists them (keys are distinct in a real
  object; a lookup takes the first binding). \<^verbatim>\<open>JSON.parse\<close> returns values without
  \<open>JUndefined\<close>; the constructor is the result of reading a property that is absent.
\<close>

datatype jsvalue =
    JUndefined
  | JNull
  | JBool bool
  | JNum number
  | JStr string
  | JArr "jsvalue list"
  | JObj "(string \<times> jsvalue) list"

text \<open>
  An operation that can throw returns an option: \<open>None\<close> is the abrupt completion with a
  \<^verbatim>\<open>TypeError\<close>, the only exception these operations raise.
\<close>

type_synonym 'a completion = "'a option"

text \<open>
  Three built-ins depend on the floating-point format, on the numeric-literal grammar and
  on the Unicode case tables. They are not part of the repository and are taken as
  parameters: \<^verbatim>\<open>Number::toString\<close>, \<^verbatim>\<open>StringToNumber\<close> and
  \<^verbatim>\<open>String.prototype.toLowerCase\<close>.
\<close>

record platform =
  numberToString :: "number \<Rightarrow> string"
  stringToNumber :: "string \<Rightarrow> number"
  toLowerCase :: "string \<Rightarrow> string"

subsection \<open>Numbers\<close>

text \<open>\<^verbatim>\<open>x < y\<close> on numbers: false as soon as one side is \<^verbatim>\<open>NaN\<close>.\<close>

fun numLess :: "number \<Rightarrow> number \<Rightarrow> bool" where
  "numLess NaN _ = False"
| "numLess _ NaN = False"
| "numLess (Finite a) (Finite b) = (a < b)"
| "numLess (Finite a) PosInfinity = True"
| "numLess (Finite a) NegInfinity = False"
| "numLess PosInfinity _ = False"
| "numLess NegInfinity NegInfinity = False"
| "numLess NegInfinity _ = True"

subsection \<open>Strings\<close>

definition digitChars :: string where
  "digitChars = ''0123456789''"

text \<open>The decimal digits of a natural number, as \<^verbatim>\<open>String(n)\<close> prints an integer below \<open>10^21\<close>.\<close>

fun decimal :: "nat \<Rightarrow> string" where
  "decimal n =
     (if n < 10 then [digitChars ! n] else decimal (n div 10) @ [digitChars ! (n mod 10)])"

declare decimal.simps [simp del]

text \<open>\<^verbatim>\<open>s.endsWith(t)\<close> and \<^verbatim>\<open>s.includes(t)\<close> on strings.\<close>

definition endsWith :: "string \<Rightarrow> string \<Rightarrow> bool" where
  "endsWith s t = (length t \<le> length s \<and> drop (length s - length t) s = t)"

fun strIncludes :: "string \<Rightarrow> string \<Rightarrow> bool" where
  "strIncludes [] t = (t = [])"
| "strIncludes (c # cs) t = (take (length t) (c # cs) = t \<or> strIncludes cs t)"

text \<open>\<^verbatim>\<open>parts.join(sep)\<close> on strings that are already converted.\<close>

fun joinWith :: "string \<Rightarrow> string list \<Rightarrow> string" where
  "joinWith sep [] = []"
| "joinWith sep [s] = s"
| "joinWith sep (s # t # ts) = s @ sep @ joinWith sep (t # ts)"

text \<open>
  \<^verbatim>\<open>(bytes / 1024 / 1024).toFixed(1)\<close> for a byte count below \<open>2^53\<close>: both divisions
  are exact in a double, and \<^verbatim>\<open>toFixed(1)\<close> takes the integer \<open>n\<close> with \<open>n / 10\<close>
  nearest to the exact quotient, the larger one on a tie, that is
  \<open>n = \<lfloor>10 * bytes / 2^20 + 1/2\<rfloor>\<close>, and prints \<open>n\<close> with a point before its last digit.
\<close>

definition toFixed1MiB :: "nat \<Rightarrow> string" where
  "toFixed1MiB bytes =
     (let n = (20 * bytes + 1048576) div 2097152
      in decimal (n div 10) @ ''.'' @ decimal (n mod 10))"

subsection \<open>Coercions\<close>

text \<open>\<^verbatim>\<open>ToBoolean\<close>: what \<^verbatim>\<open>!v\<close>, \<^verbatim>\<open>if (v)\<close>, \<^verbatim>\<open>v ? a : b\<close> and \<^verbatim>\<open>v || w\<close> test.\<close>

fun truthy :: "jsvalue \<Rightarrow> bool" where
  "truthy JUndefined = False"
| "truthy JNull = False"
| "truthy (JBool b) = b"
| "truthy (JNum n) = (n \<noteq> Finite 0 \<and> n \<noteq> NaN)"
| "truthy (JStr s) = (s \<noteq> [])"
| "truthy (JArr xs) = True"
| "truthy (JObj kvs) = True"

text \<open>
  \<^verbatim>\<open>ToString\<close>, as a template literal, \<^verbatim>\<open>endsWith\<close> and \<^verbatim>\<open>RegExp.prototype.test\<close> apply
  it to their argument. An array is joined with commas, an element that is \<^verbatim>\<open>null\<close> or
  \<^verbatim>\<open>undefined\<close> printing as the empty string. A plain object prints through
  \<^verbatim>\<open>Object.prototype.toString\<close>, unless it has an own property \<^verbatim>\<open>toString\<close>: a value
  decoded from JSON is never callable, so that method is skipped, \<^verbatim>\<open>valueOf\<close> gives no
  primitive either, and the conversion throws.
\<close>

fun toStringJ :: "platform \<Rightarrow> jsvalue \<Rightarrow> string completion" where
  "toStringJ P JUndefined = Some ''undefined''"
| "toStringJ P JNull = Some ''null''"
| "toStringJ P (JBool b) = Some (if b then ''true'' else ''false'')"
| "toStringJ P (JNum n) = Some (numberToString P n)"
| "toStringJ P (JStr s) = Some s"
| "toStringJ P (JArr xs) =
     map_option (joinWith '','')
       (those (map (\<lambda>x. if x = JNull \<or> x = JUndefined then Some [] else toStringJ P x) xs))"
| "toStringJ P (JObj kvs) =
     (if ''toString'' \<in> set (map fst kvs) then None else Some ''[object Object]'')"

text \<open>
  \<^verbatim>\<open>ToNumber\<close> after \<^verbatim>\<open>ToPrimitive\<close>, as \<^verbatim>\<open><\<close> and \<^verbatim>\<open>>\<close> apply it to an operand
  compared with a number.
\<close>

fun toNumberJ :: "platform \<Rightarrow> jsvalue \<Rightarrow> number completion" where
  "toNumberJ P JUndefined = Some NaN"
| "toNumberJ P JNull = Some (Finite 0)"
| "toNumberJ P (JBool b) = Some (Finite (if b then 1 else 0))"
| "toNumberJ P (JNum n) = Some n"
| "toNumberJ P (JStr s) = Some (stringToNumber P s)"
| "toNumberJ P (JArr xs) = map_option (stringToNumber P) (toStringJ P (JArr xs))"
| "toNumberJ P (JObj kvs) = map_option (stringToNumber P) (toStringJ P (JObj kvs))"

text \<open>\<^verbatim>\<open>v < k\<close> and \<^verbatim>\<open>v > k\<close> for a number literal \<open>k\<close>.\<close>

definition lessThanNum :: "platform \<Rightarrow> jsvalue \<Rightarrow> rat \<Rightarrow> bool completion" where
  "lessThanNum P v k = map_option (\<lambda>n. numLess n (Finite k)) (toNumberJ P v)"

definition greaterThanNum :: "platform \<Rightarrow> jsvalue \<Rightarrow> rat \<Rightarrow> bool completion" where
  "greaterThanNum P v k = map_option (\<lambda>n. numLess (Finite k) n) (toNumberJ P v)"

subsection \<open>Property reads\<close>

text \<open>The value of an own property of an object, \<^verbatim>\<open>undefined\<close> when the object has none.\<close>

definition ownProperty :: "(string \<times> jsvalue) list \<Rightarrow> string \<Rightarrow> jsvalue" where
  "ownProperty kvs key = (case map_of kvs key of None \<Rightarrow> JUndefined | Some v \<Rightarrow> v)"

text \<open>
  \<^verbatim>\<open>v.key\<close> and \<^verbatim>\<open>v[key]\<close> for the field names the validator reads from the manifest
  (none of them an array index, \<^verbatim>\<open>length\<close> or a property of a built-in prototype):
  the own property of an object, \<^verbatim>\<open>undefined\<close> on any other value, and a
  \<^verbatim>\<open>TypeError\<close> on \<^verbatim>\<open>null\<close> and \<^verbatim>\<open>undefined\<close>.
\<close>

fun getField :: "jsvalue \<Rightarrow> string \<Rightarrow> jsvalue completion" where
  "getField JUndefined key = None"
| "getField JNull key = None"
| "getField (JObj kvs) key = Some (ownProperty kvs key)"
| "getField v key = Some JUndefined"

text \<open>
  \<^verbatim>\<open>v[n.toString()]\<close> for a natural number \<open>n\<close>: the own property of an object under
  the decimal key, the element of an array, the code unit of a string.
\<close>

fun getIndex :: "jsvalue \<Rightarrow> nat \<Rightarrow> jsvalue completion" where
  "getIndex JUndefined n = None"
| "getIndex JNull n = None"
| "getIndex (JObj kvs) n = Some (ownProperty kvs (decimal n))"
| "getIndex (JArr xs) n = Some (if n < length xs then xs ! n else JUndefined)"
| "getIndex (JStr s) n = Some (if n < length s then JStr [s ! n] else JUndefined)"
| "getIndex v n = Some JUndefined"

text \<open>\<^verbatim>\<open>v.length\<close>.\<close>

fun getLength :: "jsvalue \<Rightarrow> jsvalue completion" where
  "getLength JUndefined = None"
| "getLength JNull = None"
| "getLength (JStr s) = Some (JNum (Finite (of_nat (length s))))"
| "getLength (JArr xs) = Some (JNum (Finite (of_nat (length xs))))"
| "getLength (JObj kvs) = Some (ownProperty kvs ''length'')"
| "getLength v = Some JUndefined"

text \<open>
  \<^verbatim>\<open>Object.entries(v)\<close> for a value that is not \<^verbatim>\<open>null\<close> or \<^verbatim>\<open>undefined\<close>: the own
  properties of an object, the indexed elements of an array, the indexed code units of a
  string, nothing for a number or a boolean.
\<close>

fun objectEntries :: "jsvalue \<Rightarrow> (string \<times> jsvalue) list completion" where
  "objectEntries JUndefined = None"
| "objectEntries JNull = None"
| "objectEntries (JObj kvs) = Some kvs"
| "objectEntries (JArr xs) = Some (map (\<lambda>i. (decimal i, xs ! i)) [0..<length xs])"
| "objectEntries (JStr s) = Some (map (\<lambda>i. (decimal i, JStr [s ! i])) [0..<length s])"
| "objectEntries v = Some []"

text \<open>
  \<^verbatim>\<open>xs.join(sep)\<close> on an array of values: \<^verbatim>\<open>null\<close> and \<^verbatim>\<open>undefined\<close> print as the
  empty string, every other element through \<^verbatim>\<open>ToString\<close>.
\<close>

definition arrayJoin :: "platform \<Rightarrow> string \<Rightarrow> jsvalue list \<Rightarrow> string completion" where
  "arrayJoin P sep xs =
     map_option (joinWith sep)
       (those (map (\<lambda>x. if x = JNull \<or> x = JUndefined then Some [] else toStringJ P x) xs))"

text \<open>
  \<^verbatim>\<open>for (const x of v)\<close>: the elements of an array, the code points of a string (its code
  units, in the strings modelled); any other value is not iterable.
\<close>

fun iterate :: "jsvalue \<Rightarrow> jsvalue list completion" where
  "iterate (JArr xs) = Some xs"
| "iterate (JStr s) = Some (map (\<lambda>c. JStr [c]) s)"
| "iterate v = None"

text \<open>
  \<^verbatim>\<open>v.includes(s)\<close> for a string literal \<open>s\<close>: \<^verbatim>\<open>String.prototype.includes\<close> on a
  string, \<^verbatim>\<open>Array.prototype.includes\<close> on an array; no other decoded value has a
  callable \<^verbatim>\<open>includes\<close>.
\<close>

fun includesJ :: "jsvalue \<Rightarrow> string \<Rightarrow> bool completion" where
  "includesJ (JStr t) s = Some (strIncludes t s)"
| "includesJ (JArr xs) s = Some (JStr s \<in> set xs)"
| "includesJ v s = None"

text \<open>
  \<^verbatim>\<open>v.some(callback)\<close>: only an array has the method; it stops at the first element on
  which the callback holds, and a throw of the callback leaves the loop.
\<close>

fun someLoop :: "(jsvalue \<Rightarrow> bool completion) \<Rightarrow> jsvalue list \<Rightarrow> bool completion" where
  "someLoop callback [] = Some False"
| "someLoop callback (x # xs) =
     do { b \<leftarrow> callback x; if b then Some True else someLoop callback xs }"

fun someJ :: "(jsvalue \<Rightarrow> bool completion) \<Rightarrow> jsvalue \<Rightarrow> bool completion" where
  "someJ callback (JArr xs) = someLoop callback xs"
| "someJ callback v = None"

text \<open>The \<^verbatim>\<open>?.\<close> of \<^verbatim>\<open>v?.m\<close> short-circuits on these two values only.\<close>

definition nullish :: "jsvalue \<Rightarrow> bool" where
  "nullish v = (v = JUndefined \<or> v = JNull)"

section \<open>The rulebook and the findings\<close>

datatype category = Manifest | Icons | Privacy | Content | Permissions | Metadata

datatype result_type = Error | Warning | Info | Success

datatype severity = Critical | High | Medium | Low

record finding =
  category :: category
  type :: result_type
  title :: string
  message :: string
  requirement :: string
  suggestion :: "string option"
  severity :: severity

record jsfile =
  file_name :: string
  file_size :: nat

text \<open>\<^verbatim>\<open>STORE_REQUIREMENTS\<close>.\<close>

definition required_fields :: "string list" where
  "required_fields = [''name'', ''version'', ''description'', ''manifest_version'']"

definition name_length_min :: rat where "name_length_min = 3"
definition name_length_max :: rat where "name_length_max = 45"
definition description_length_min :: rat where "description_length_min = 10"
definition description_length_max :: rat where "description_length_max = 132"

definition required_sizes :: "nat list" where
  "required_sizes = [16, 48, 128]"

definition recommended_sizes :: "nat list" where
  "recommended_sizes = [19, 38, 32, 64, 96]"

definition max_file_size :: nat where
  "max_file_size = 2 * 1024 * 1024"

definition dangerous :: "string list" where
  "dangerous = [''<all_urls>'', ''http://*/*'', ''https://*/*'', ''tabs'', ''history'', ''bookmarks'']"

definition max_package_size :: nat where
  "max_package_size = 128 * 1024 * 1024"

definition prohibited_content :: "string list" where
  "prohibited_content = [''cryptocurrency'', ''mining'', ''adult'', ''violence'']"

definition data_collection_apis :: "string list" where
  "data_collection_apis = [''identity'', ''cookies'', ''history'', ''tabs'']"

text \<open>
  \<^verbatim>\<open>version_format\<close> is the regular expression \<^verbatim>\<open>/^\d+(\.\d+)*$/\<close>: runs of decimal
  digits, none of them empty, separated by single dots. The flag says whether the run
  being read has a digit already.
\<close>

fun versionRuns :: "bool \<Rightarrow> string \<Rightarrow> bool" where
  "versionRuns seen [] = seen"
| "versionRuns seen (c # cs) =
     (if c \<in> set digitChars then versionRuns True cs
      else if c = CHR ''.'' \<and> seen then versionRuns False cs
      else False)"

definition version_format :: "string \<Rightarrow> bool" where
  "version_format s = versionRuns False s"

text \<open>
  \<^verbatim>\<open>for (const x of xs) { ... results.push(...) ... }\<close>: the findings the body pushes
  for each element, in order; a throw of the body leaves the loop.
\<close>

fun forEach :: "('a \<Rightarrow> finding list completion) \<Rightarrow> 'a list \<Rightarrow> finding list completion" where
  "forEach body [] = Some []"
| "forEach body (x # xs) = do { pushed \<leftarrow> body x; rest \<leftarrow> forEach body xs; Some (pushed @ rest) }"

section \<open>The five checks\<close>

text \<open>
  Each check of the source receives the shared array \<^verbatim>\<open>results\<close> and only ever pushes to
  it. A check is modelled by the list of findings it pushes, in the order of the pushes;
  \<open>None\<close> is a check that throws.
\<close>

subsection \<open>\<^verbatim>\<open>validateManifestRequirements\<close>\<close>

definition missingField :: "string \<Rightarrow> finding" where
  \<open>missingField field =
     \<lparr>category = Manifest, type = Error,
      title = ''Missing '' @ field,
      message = ''The '' @ field @ '' field is required for Chrome Web Store'',
      requirement = ''Chrome Web Store requires all extensions to have basic metadata'',
      suggestion = Some (''Add "'' @ field @ ''" field to your manifest.json''),
      severity = Critical\<rparr>\<close>

definition nameTooShort :: finding where
  "nameTooShort =
     \<lparr>category = Manifest, type = Error,
      title = ''Name too short'',
      message = ''Extension name must be at least 3 characters'',
      requirement = ''Chrome Web Store naming requirements'',
      suggestion = Some ''Choose a more descriptive name for your extension'',
      severity = High\<rparr>"

definition nameTooLong :: finding where
  "nameTooLong =
     \<lparr>category = Manifest, type = Error,
      title = ''Name too long'',
      message = ''Extension name must be no more than 45 characters'',
      requirement = ''Chrome Web Store naming requirements'',
      suggestion = Some ''Shorten your extension name'',
      severity = High\<rparr>"

definition descriptionTooShort :: finding where
  "descriptionTooShort =
     \<lparr>category = Manifest, type = Error,
      title = ''Description too short'',
      message = ''Description must be at least 10 characters'',
      requirement = ''Chrome Web Store requires meaningful descriptions'',
      suggestion = Some ''Provide a more detailed description of your extension's functionality'',
      severity = High\<rparr>"

definition descriptionTooLong :: finding where
  "descriptionTooLong =
     \<lparr>category = Manifest, type = Warning,
      title = ''Description too long'',
      message = ''Description should be no more than 132 characters'',
      requirement = ''Chrome Web Store description guidelines'',
      suggestion = Some ''Shorten your description to be more concise'',
      severity = Medium\<rparr>"

definition invalidVersionFormat :: finding where
  "invalidVersionFormat =
     \<lparr>category = Manifest, type = Error,
      title = ''Invalid version format'',
      message = ''Version must follow semantic versioning (e.g., 1.0.0)'',
      requirement = ''Chrome Web Store version requirements'',
      suggestion = Some ''Use format like 1.0.0 or 2.1.3'',
      severity = High\<rparr>"

definition manifestV2Deprecation :: finding where
  "manifestV2Deprecation =
     \<lparr>category = Manifest, type = Warning,
      title = ''Manifest V2 deprecation'',
      message = ''Manifest V2 extensions will stop working in 2024'',
      requirement = ''Chrome Web Store is transitioning to Manifest V3'',
      suggestion = Some ''Migrate to Manifest V3 for future compatibility'',
      severity = High\<rparr>"

text \<open>The body of the loop over \<^verbatim>\<open>required_fields\<close>: \<^verbatim>\<open>if (!manifest[field])\<close>.\<close>

definition requiredFieldBody :: "jsvalue \<Rightarrow> string \<Rightarrow> finding list completion" where
  "requiredFieldBody manifest field =
     do { v \<leftarrow> getField manifest field;
          Some (if \<not> truthy v then [missingField field] else []) }"

text \<open>
  The two length validations have one shape: \<^verbatim>\<open>if (v) { const n = v.length; if (n < min)
  push(short) else if (n > max) push(long) }\<close>.
\<close>

definition lengthValidation ::
  "platform \<Rightarrow> jsvalue \<Rightarrow> rat \<Rightarrow> rat \<Rightarrow> finding \<Rightarrow> finding \<Rightarrow> finding list completion" where
  "lengthValidation P v lo hi short long =
     (if truthy v then
        do { n \<leftarrow> getLength v;
             below \<leftarrow> lessThanNum P n lo;
             if below then Some [short]
             else do { above \<leftarrow> greaterThanNum P n hi;
                       Some (if above then [long] else []) } }
      else Some [])"

definition validateManifestRequirements :: "platform \<Rightarrow> jsvalue \<Rightarrow> finding list completion" where
  "validateManifestRequirements P manifest =
     do { missing \<leftarrow> forEach (requiredFieldBody manifest) required_fields;
          name \<leftarrow> getField manifest ''name'';
          nameFindings \<leftarrow>
            lengthValidation P name name_length_min name_length_max nameTooShort nameTooLong;
          description \<leftarrow> getField manifest ''description'';
          descriptionFindings \<leftarrow>
            lengthValidation P description description_length_min description_length_max
              descriptionTooShort descriptionTooLong;
          version \<leftarrow> getField manifest ''version'';
          versionFindings \<leftarrow>
            (if truthy version then
               do { s \<leftarrow> toStringJ P version;
                    Some (if \<not> version_format s then [invalidVersionFormat] else []) }
             else Some []);
          manifest_version \<leftarrow> getField manifest ''manifest_version'';
          Some (missing @ nameFindings @ descriptionFindings @ versionFindings @
                (if manifest_version = JNum (Finite 2) then [manifestV2Deprecation] else [])) }"

subsection \<open>\<^verbatim>\<open>validateIconRequirements\<close>\<close>

definition noIconsSpecified :: finding where
  "noIconsSpecified =
     \<lparr>category = Icons, type = Error,
      title = ''No icons specified'',
      message = ''Chrome Web Store requires extension icons'',
      requirement = ''Icons are mandatory for store listing'',
      suggestion = Some ''Add icons field to manifest with at least 16px, 48px, and 128px sizes'',
      severity = Critical\<rparr>"

definition missingIcon :: "nat \<Rightarrow> finding" where
  "missingIcon sz =
     \<lparr>category = Icons, type = Error,
      title = ''Missing '' @ decimal sz @ ''px icon'',
      message = decimal sz @ ''px icon is required for Chrome Web Store'',
      requirement = ''Chrome Web Store icon requirements'',
      suggestion = Some (''Add a '' @ decimal sz @ ''x'' @ decimal sz @ '' pixel icon to your extension''),
      severity = High\<rparr>"

definition recommendedIconMissing :: "nat \<Rightarrow> finding" where
  "recommendedIconMissing sz =
     \<lparr>category = Icons, type = Info,
      title = ''Recommended '' @ decimal sz @ ''px icon missing'',
      message = decimal sz @ ''px icon is recommended for better display'',
      requirement = ''Chrome Web Store icon best practices'',
      suggestion = Some (''Consider adding a '' @ decimal sz @ ''x'' @ decimal sz @ '' pixel icon''),
      severity = Low\<rparr>"

definition iconFileNotFound :: "string \<Rightarrow> finding" where
  "iconFileNotFound iconPath =
     \<lparr>category = Icons, type = Error,
      title = ''Icon file not found'',
      message = ''Icon file '' @ iconPath @ '' referenced in manifest but not found'',
      requirement = ''All referenced files must be included'',
      suggestion = Some (''Include the '' @ iconPath @ '' file in your extension package''),
      severity = High\<rparr>"

definition largeIconFile :: "string \<Rightarrow> nat \<Rightarrow> finding" where
  "largeIconFile iconPath bytes =
     \<lparr>category = Icons, type = Warning,
      title = ''Large icon file'',
      message = ''Icon '' @ iconPath @ '' is '' @ toFixed1MiB bytes @ ''MB'',
      requirement = ''Keep icon files small for faster loading'',
      suggestion = Some ''Optimize icon files to reduce size'',
      severity = Medium\<rparr>"

text \<open>The bodies of the two loops over sizes: \<^verbatim>\<open>if (!manifest.icons[size.toString()])\<close>.\<close>

definition requiredSizeBody :: "jsvalue \<Rightarrow> nat \<Rightarrow> finding list completion" where
  "requiredSizeBody icons sz =
     do { v \<leftarrow> getIndex icons sz;
          Some (if \<not> truthy v then [missingIcon sz] else []) }"

definition recommendedSizeBody :: "jsvalue \<Rightarrow> nat \<Rightarrow> finding list completion" where
  "recommendedSizeBody icons sz =
     do { v \<leftarrow> getIndex icons sz;
          Some (if \<not> truthy v then [recommendedIconMissing sz] else []) }"

text \<open>
  \<^verbatim>\<open>files.find((f) => f.name === iconPath || f.name.endsWith(iconPath))\<close>: the first file
  on which the callback holds. \<^verbatim>\<open>===\<close> holds for a string equal to the name only;
  \<^verbatim>\<open>endsWith\<close> converts its argument to a string, which can throw.
\<close>

fun findIconFile :: "platform \<Rightarrow> jsvalue \<Rightarrow> jsfile list \<Rightarrow> jsfile option completion" where
  "findIconFile P iconPath [] = Some None"
| "findIconFile P iconPath (f # fs) =
     (if JStr (file_name f) = iconPath then Some (Some f)
      else do { suffix \<leftarrow> toStringJ P iconPath;
                if endsWith (file_name f) suffix then Some (Some f)
                else findIconFile P iconPath fs })"

text \<open>The body of the loop over \<^verbatim>\<open>Object.entries(manifest.icons)\<close>.\<close>

definition iconEntryBody :: "platform \<Rightarrow> jsfile list \<Rightarrow> string \<times> jsvalue \<Rightarrow> finding list completion" where
  "iconEntryBody P files entry =
     (case entry of (sz, iconPath) \<Rightarrow>
        do { iconFile \<leftarrow> findIconFile P iconPath files;
             case iconFile of
               None \<Rightarrow> do { path \<leftarrow> toStringJ P iconPath; Some [iconFileNotFound path] }
             | Some f \<Rightarrow>
                 if file_size f > max_file_size
                 then do { path \<leftarrow> toStringJ P iconPath; Some [largeIconFile path (file_size f)] }
                 else Some [] })"

definition validateIconRequirements ::
  "platform \<Rightarrow> jsvalue \<Rightarrow> jsfile list \<Rightarrow> finding list completion" where
  "validateIconRequirements P manifest files =
     do { icons \<leftarrow> getField manifest ''icons'';
          if \<not> truthy icons then Some [noIconsSpecified]
          else do { required \<leftarrow> forEach (requiredSizeBody icons) required_sizes;
                    recommended \<leftarrow> forEach (recommendedSizeBody icons) recommended_sizes;
                    entries \<leftarrow> objectEntries icons;
                    referenced \<leftarrow> forEach (iconEntryBody P files) entries;
                    Some (required @ recommended @ referenced) } }"

subsection \<open>\<^verbatim>\<open>validatePermissionRequirements\<close>\<close>

definition broadPermission :: "string \<Rightarrow> finding" where
  "broadPermission permission =
     \<lparr>category = Permissions, type = Warning,
      title = ''Broad permission: '' @ permission,
      message = ''This permission may require additional review'',
      requirement = ''Chrome Web Store reviews extensions with broad permissions carefully'',
      suggestion = Some ''Consider using more specific permissions if possible'',
      severity = High\<rparr>"

definition manyPermissions :: "string \<Rightarrow> finding" where
  "manyPermissions count =
     \<lparr>category = Permissions, type = Warning,
      title = ''Many permissions requested'',
      message = ''Extension requests '' @ count @ '' permissions'',
      requirement = ''Extensions should request minimal permissions'',
      suggestion = Some ''Review if all permissions are necessary'',
      severity = Medium\<rparr>"

definition hostPermissionsInWrongField :: finding where
  "hostPermissionsInWrongField =
     \<lparr>category = Permissions, type = Error,
      title = ''Host permissions in wrong field'',
      message = ''Host permissions should be in host_permissions field in Manifest V3'',
      requirement = ''Manifest V3 permission structure'',
      suggestion = Some ''Move URL patterns to host_permissions field'',
      severity = High\<rparr>"

text \<open>
  The body of the loop over the permissions: \<^verbatim>\<open>dangerous.includes(permission)\<close> holds
  for a string of the list only, and the title prints that string.
\<close>

definition dangerousBody :: "jsvalue \<Rightarrow> finding list completion" where
  "dangerousBody permission =
     Some (case permission of
             JStr s \<Rightarrow> if s \<in> set dangerous then [broadPermission s] else []
           | _ \<Rightarrow> [])"

definition validatePermissionRequirements :: "platform \<Rightarrow> jsvalue \<Rightarrow> finding list completion" where
  "validatePermissionRequirements P manifest =
     do { permissions \<leftarrow> getField manifest ''permissions'';
          if \<not> truthy permissions then Some []
          else do { items \<leftarrow> iterate permissions;
                    broad \<leftarrow> forEach dangerousBody items;
                    n \<leftarrow> getLength permissions;
                    many \<leftarrow> greaterThanNum P n 10;
                    excessive \<leftarrow>
                      (if many then do { count \<leftarrow> toStringJ P n; Some [manyPermissions count] }
                       else Some []);
                    manifest_version \<leftarrow> getField manifest ''manifest_version'';
                    hosts \<leftarrow>
                      (if manifest_version = JNum (Finite 3)
                       then someJ (\<lambda>p. includesJ p ''://'') permissions
                       else Some False);
                    Some (broad @ excessive @ (if hosts then [hostPermissionsInWrongField] else [])) } }"

subsection \<open>\<^verbatim>\<open>validatePrivacyRequirements\<close>\<close>

definition privacyPolicyRequired :: finding where
  "privacyPolicyRequired =
     \<lparr>category = Privacy, type = Error,
      title = ''Privacy policy required'',
      message = ''Extensions that collect user data must have a privacy policy'',
      requirement = ''Chrome Web Store privacy requirements'',
      suggestion = Some ''Add privacy policy URL to your developer dashboard'',
      severity = Critical\<rparr>"

definition identityPermissionDetected :: finding where
  "identityPermissionDetected =
     \<lparr>category = Privacy, type = Info,
      title = ''Identity permission detected'',
      message = ''Extension can access user identity information'',
      requirement = ''Clearly explain why identity access is needed'',
      suggestion = Some ''Document identity usage in your privacy policy'',
      severity = Medium\<rparr>"

definition cookieAccessDetected :: finding where
  "cookieAccessDetected =
     \<lparr>category = Privacy, type = Info,
      title = ''Cookie access detected'',
      message = ''Extension can access website cookies'',
      requirement = ''Explain cookie usage to users'',
      suggestion = Some ''Document cookie handling in your privacy policy'',
      severity = Medium\<rparr>"

text \<open>
  \<^verbatim>\<open>manifest.permissions?.some(cb)\<close> and \<^verbatim>\<open>manifest.permissions?.includes(s)\<close>: the
  result is \<^verbatim>\<open>undefined\<close>, which tests false, when the permissions are \<^verbatim>\<open>null\<close> or
  \<^verbatim>\<open>undefined\<close>; on any other value the method is called.
\<close>

definition optionalSome :: "(jsvalue \<Rightarrow> bool completion) \<Rightarrow> jsvalue \<Rightarrow> bool completion" where
  "optionalSome callback v = (if nullish v then Some False else someJ callback v)"

definition optionalIncludes :: "jsvalue \<Rightarrow> string \<Rightarrow> bool completion" where
  "optionalIncludes v s = (if nullish v then Some False else includesJ v s)"

definition validatePrivacyRequirements :: "platform \<Rightarrow> jsvalue \<Rightarrow> finding list completion" where
  "validatePrivacyRequirements P manifest =
     do { permissions \<leftarrow> getField manifest ''permissions'';
          collectsData \<leftarrow>
            optionalSome (\<lambda>p. Some (p \<in> set (map JStr data_collection_apis))) permissions;
          privacy_policy \<leftarrow> getField manifest ''privacy_policy'';
          identity \<leftarrow> optionalIncludes permissions ''identity'';
          cookies \<leftarrow> optionalIncludes permissions ''cookies'';
          Some ((if collectsData \<and> \<not> truthy privacy_policy then [privacyPolicyRequired] else []) @
                (if identity then [identityPermissionDetected] else []) @
                (if cookies then [cookieAccessDetected] else [])) }"

subsection \<open>\<^verbatim>\<open>validateContentPolicies\<close>\<close>

definition packageTooLarge :: "nat \<Rightarrow> finding" where
  "packageTooLarge totalSize =
     \<lparr>category = Content, type = Error,
      title = ''Package too large'',
      message = ''Extension package is '' @ toFixed1MiB totalSize @ ''MB'',
      requirement = ''Chrome Web Store has a 128MB size limit'',
      suggestion = Some ''Reduce package size by optimizing assets'',
      severity = High\<rparr>"

definition prohibitedContent :: "string \<Rightarrow> finding" where
  "prohibitedContent prohibited =
     \<lparr>category = Content, type = Warning,
      title = ''Potentially prohibited content'',
      message = ''Content may contain references to '' @ prohibited,
      requirement = ''Chrome Web Store content policies'',
      suggestion = Some ''Review content policy compliance'',
      severity = High\<rparr>"

definition multipleFunctionalities :: finding where
  "multipleFunctionalities =
     \<lparr>category = Content, type = Info,
      title = ''Multiple functionalities detected'',
      message = ''Extension has multiple types of functionality'',
      requirement = ''Chrome Web Store prefers single-purpose extensions'',
      suggestion = Some ''Ensure all features serve a cohesive purpose'',
      severity = Low\<rparr>"

text \<open>
  \<^verbatim>\<open>files.reduce((sum, file) => sum + file.size, 0)\<close>. The sizes are natural numbers and
  the sum is exact in a double as long as it stays below \<open>2^53\<close>.
\<close>

definition totalSize :: "jsfile list \<Rightarrow> nat" where
  "totalSize files = foldl (\<lambda>sum file. sum + file_size file) 0 files"

text \<open>The body of the loop over \<^verbatim>\<open>prohibited_content\<close>.\<close>

definition prohibitedBody :: "string \<Rightarrow> string \<Rightarrow> finding list completion" where
  "prohibitedBody textContent prohibited =
     Some (if strIncludes textContent prohibited then [prohibitedContent prohibited] else [])"

text \<open>\<^verbatim>\<open>manifest.content_scripts?.length > 0\<close>.\<close>

definition hasContentScripts :: "platform \<Rightarrow> jsvalue \<Rightarrow> bool completion" where
  "hasContentScripts P content_scripts =
     do { n \<leftarrow> (if nullish content_scripts then Some JUndefined else getLength content_scripts);
          greaterThanNum P n 0 }"

definition validateContentPolicies ::
  "platform \<Rightarrow> jsvalue \<Rightarrow> jsfile list \<Rightarrow> finding list completion" where
  "validateContentPolicies P manifest files =
     do { let package =
            (if totalSize files > max_package_size then [packageTooLarge (totalSize files)] else []);
          name \<leftarrow> getField manifest ''name'';
          description \<leftarrow> getField manifest ''description'';
          joined \<leftarrow> arrayJoin P '' '' [name, description];
          let textContent = toLowerCase P joined;
          keywords \<leftarrow> forEach (prohibitedBody textContent) prohibited_content;
          content_scripts \<leftarrow> getField manifest ''content_scripts'';
          scripts \<leftarrow> hasContentScripts P content_scripts;
          background \<leftarrow> getField manifest ''background'';
          action \<leftarrow> getField manifest ''action'';
          browser_action \<leftarrow> getField manifest ''browser_action'';
          options_page \<leftarrow> getField manifest ''options_page'';
          let hasMultiplePurposes =
            ((if scripts then 1 else 0) +
             (if truthy background then 1 else 0) +
             (if truthy action \<or> truthy browser_action then 1 else 0) +
             (if truthy options_page then 1 else 0) > (2 :: nat));
          Some (package @ keywords @ (if hasMultiplePurposes then [multipleFunctionalities] else [])) }"

section \<open>The score and the run\<close>

text \<open>\<^verbatim>\<open>calculateOverallScore\<close>; the value is what it passes to \<^verbatim>\<open>setOverallScore\<close>.\<close>

fun weights :: "severity \<Rightarrow> int" where
  "weights Critical = -25"
| "weights High = -15"
| "weights Medium = -10"
| "weights Low = -5"

definition penalties :: "finding list \<Rightarrow> int" where
  "penalties results = foldl (\<lambda>sum result. sum + weights (severity result)) 0 results"

definition calculateOverallScore :: "finding list \<Rightarrow> int" where
  "calculateOverallScore results = max 0 (min 100 (100 + penalties results))"

text \<open>
  The part of the component's state that \<^verbatim>\<open>validateForStore\<close> writes. A toast is kept
  with its title, its description and whether its variant is \<^verbatim>\<open>destructive\<close>.
\<close>

record toast =
  toast_title :: string
  toast_description :: string
  destructive :: bool

record validator_state =
  validationResults :: "finding list"
  isValidating :: bool
  progress :: nat
  overallScore :: int
  toasts :: "toast list"

text \<open>The five checks in the order of the \<^verbatim>\<open>try\<close> block; the first throw ends it.\<close>

definition runChecks :: "platform \<Rightarrow> jsvalue \<Rightarrow> jsfile list \<Rightarrow> finding list completion" where
  "runChecks P manifest files =
     do { r1 \<leftarrow> validateManifestRequirements P manifest;
          r2 \<leftarrow> validateIconRequirements P manifest files;
          r3 \<leftarrow> validatePermissionRequirements P manifest;
          r4 \<leftarrow> validatePrivacyRequirements P manifest;
          r5 \<leftarrow> validateContentPolicies P manifest files;
          Some (r1 @ r2 @ r3 @ r4 @ r5) }"

text \<open>The last value \<^verbatim>\<open>setProgress\<close> receives: 20 more after each check that returns.\<close>

definition progressReached :: "platform \<Rightarrow> jsvalue \<Rightarrow> jsfile list \<Rightarrow> nat" where
  "progressReached P manifest files =
     (if validateManifestRequirements P manifest = None then 0
      else if validateIconRequirements P manifest files = None then 20
      else if validatePermissionRequirements P manifest = None then 40
      else if validatePrivacyRequirements P manifest = None then 60
      else if validateContentPolicies P manifest files = None then 80
      else 100)"

definition countString :: "platform \<Rightarrow> nat \<Rightarrow> string" where
  "countString P n = numberToString P (Finite (of_nat n))"

definition completeToast :: "platform \<Rightarrow> finding list \<Rightarrow> toast" where
  "completeToast P results =
     (let criticalIssues = length (filter (\<lambda>r. severity r = Critical) results);
          errors = length (filter (\<lambda>r. type r = Error) results)
      in \<lparr>toast_title = ''Store validation complete'',
          toast_description = ''Found '' @ countString P criticalIssues @ '' critical issues and '' @
                              countString P errors @ '' errors'',
          destructive = (criticalIssues > 0)\<rparr>)"

definition failedToast :: toast where
  "failedToast =
     \<lparr>toast_title = ''Validation failed'',
      toast_description = ''An error occurred during store validation'',
      destructive = True\<rparr>"

text \<open>
  \<^verbatim>\<open>validateForStore\<close>: when the checks return, the results and the score are set from
  them; when one throws, the \<^verbatim>\<open>catch\<close> only shows a toast. \<^verbatim>\<open>finally\<close> clears the flag.
\<close>

definition validateForStore ::
  "platform \<Rightarrow> jsvalue \<Rightarrow> jsfile list \<Rightarrow> validator_state \<Rightarrow> validator_state" where
  "validateForStore P manifest files st =
     (case runChecks P manifest files of
        Some results \<Rightarrow>
          st\<lparr>validationResults := results,
             isValidating := False,
             progress := 100,
             overallScore := calculateOverallScore results,
             toasts := toasts st @ [completeToast P results]\<rparr>
      | None \<Rightarrow>
          st\<lparr>isValidating := False,
             progress := progressReached P manifest files,
             toasts := toasts st @ [failedToast]\<rparr>)"

section \<open>Manifests of the declared shape, and a platform for closed examples\<close>

text \<open>
  The shape the interface \<^verbatim>\<open>ExtensionMetadata\<close> and the uses in the checks expect, each
  field being optional: the manifest is an object; \<^verbatim>\<open>name\<close>, \<^verbatim>\<open>description\<close> and
  \<^verbatim>\<open>version\<close> are scalars (a string, a number, a boolean, \<^verbatim>\<open>null\<close>) or absent;
  \<^verbatim>\<open>icons\<close> tests false or is an object whose values are scalars; \<^verbatim>\<open>permissions\<close> is
  absent, \<^verbatim>\<open>null\<close> or an array of strings; \<^verbatim>\<open>content_scripts\<close> is absent, a scalar or
  an array. Every other field is free.
\<close>

fun scalar :: "jsvalue \<Rightarrow> bool" where
  "scalar (JArr xs) = False"
| "scalar (JObj kvs) = False"
| "scalar v = True"

fun isString :: "jsvalue \<Rightarrow> bool" where
  "isString (JStr s) = True"
| "isString v = False"

fun iconsShape :: "jsvalue \<Rightarrow> bool" where
  "iconsShape (JObj kvs) = list_all (\<lambda>entry. scalar (snd entry)) kvs"
| "iconsShape v = (\<not> truthy v)"

fun permissionsShape :: "jsvalue \<Rightarrow> bool" where
  "permissionsShape JUndefined = True"
| "permissionsShape JNull = True"
| "permissionsShape (JArr xs) = list_all isString xs"
| "permissionsShape v = False"

fun contentScriptsShape :: "jsvalue \<Rightarrow> bool" where
  "contentScriptsShape (JObj kvs) = False"
| "contentScriptsShape v = True"

fun conforms :: "jsvalue \<Rightarrow> bool" where
  "conforms (JObj kvs) =
     (scalar (ownProperty kvs ''name'') \<and> scalar (ownProperty kvs ''description'') \<and>
      scalar (ownProperty kvs ''version'') \<and> iconsShape (ownProperty kvs ''icons'') \<and>
      permissionsShape (ownProperty kvs ''permissions'') \<and>
      contentScriptsShape (ownProperty kvs ''content_scripts''))"
| "conforms v = False"

text \<open>
  A platform to evaluate closed examples with. It agrees with ECMAScript where the
  examples use it: \<open>numberToString\<close> on the natural numbers below \<open>10^21\<close>,
  \<open>stringToNumber\<close> on the empty string and on strings of decimal digits, and
  \<open>toLowerCase\<close> on ASCII.
\<close>

definition digitValue :: "char \<Rightarrow> nat" where
  "digitValue c = length (takeWhile (\<lambda>d. d \<noteq> c) digitChars)"

definition exampleNumberToString :: "number \<Rightarrow> string" where
  "exampleNumberToString n =
     (case n of
        Finite q \<Rightarrow> if q < 0 then CHR ''-'' # decimal (nat \<lfloor>- q\<rfloor>) else decimal (nat \<lfloor>q\<rfloor>)
      | PosInfinity \<Rightarrow> ''Infinity''
      | NegInfinity \<Rightarrow> ''-Infinity''
      | NaN \<Rightarrow> ''NaN'')"

definition exampleStringToNumber :: "string \<Rightarrow> number" where
  "exampleStringToNumber s =
     (if list_all (\<lambda>c. c \<in> set digitChars) s
      then Finite (of_nat (foldl (\<lambda>acc c. 10 * acc + digitValue c) 0 s))
      else NaN)"

definition exampleToLowerCase :: "string \<Rightarrow> string" where
  "exampleToLowerCase s =
     map (\<lambda>c. case map_of (zip ''ABCDEFGHIJKLMNOPQRSTUVWXYZ'' ''abcdefghijklmnopqrstuvwxyz'') c of
                None \<Rightarrow> c | Some l \<Rightarrow> l) s"

definition examplePlatform :: platform where
  "examplePlatform =
     \<lparr>numberToString = exampleNumberToString,
      stringToNumber = exampleStringToNumber,
      toLowerCase = exampleToLowerCase\<rparr>"

text \<open>
  Inputs for the closed examples: a Manifest V3 document whose \<^verbatim>\<open>permissions\<close> is the
  string \<^verbatim>\<open>"tabs"\<close> instead of an array, the same document with the array
  \<^verbatim>\<open>["tabs"]\<close>, the state of the component when it is mounted, and a state that a
  previous run has left.
\<close>

definition stringPermissionsManifest :: jsvalue where
  "stringPermissionsManifest =
     JObj [(''manifest_version'', JNum (Finite 3)), (''name'', JStr ''Demo''),
           (''version'', JStr ''1.0''), (''description'', JStr ''A small demo extension''),
           (''permissions'', JStr ''tabs'')]"

definition demoManifest :: jsvalue where
  "demoManifest =
     JObj [(''manifest_version'', JNum (Finite 3)), (''name'', JStr ''Demo''),
           (''version'', JStr ''1.0''), (''description'', JStr ''A small demo extension''),
           (''permissions'', JArr [JStr ''tabs''])]"

definition initialState :: validator_state where
  "initialState =
     \<lparr>validationResults = [], isValidating = False, progress = 0, overallScore = 0, toasts = []\<rparr>"

definition staleState :: validator_state where
  "staleState =
     \<lparr>validationResults = [nameTooShort], isValidating = False, progress = 100,
      overallScore = 85, toasts = []\<rparr>"

definition falsyNameManifest :: jsvalue where
  "falsyNameManifest =
     JObj [(''manifest_version'', JNum (Finite 0)), (''name'', JStr []),
           (''version'', JStr ''1.0''), (''description'', JStr ''A small demo extension'')]"

definition tabsManifest :: jsvalue where
  "tabsManifest = JObj [(''permissions'', JArr [JStr ''tabs''])]"

definition tabsPolicyManifest :: jsvalue where
  "tabsPolicyManifest =
     JObj [(''permissions'', JArr [JStr ''tabs'']),
           (''privacy_policy'', JStr ''https://example.com/policy'')]"

definition tabsEmptyPolicyManifest :: jsvalue where
  "tabsEmptyPolicyManifest =
     JObj [(''permissions'', JArr [JStr ''tabs'']), (''privacy_policy'', JStr [])]"

definition largePackage :: "jsfile list" where
  "largePackage =
     [\<lparr>file_name = ''manifest.json'', file_size = 1024\<rparr>,
      \<lparr>file_name = ''assets/video.mp4'', file_size = 130 * 1024 * 1024 - 1024\<rparr>]"

definition manyPurposesManifest :: jsvalue where
  "manyPurposesManifest =
     JObj [(''name'', JStr ''Demo''), (''description'', JStr ''A small demo extension''),
           (''content_scripts'', JArr [JObj [(''js'', JArr [JStr ''content.js''])]]),
           (''background'', JObj [(''service_worker'', JStr ''background.js'')]),
           (''action'', JObj [])]"

definition iconsManifest :: jsvalue where
  "iconsManifest =
     JObj [(''icons'', JObj [(''16'', JStr ''icon16.png''), (''128'', JStr ''icons/big.png'')])]"

definition iconFiles :: "jsfile list" where
  "iconFiles =
     [\<lparr>file_name = ''images/icon16.png'', file_size = 1000\<rparr>,
      \<lparr>file_name = ''icons/big.png'', file_size = 3 * 1024 * 1024\<rparr>]"

definition icon128Manifest :: jsvalue where
  "icon128Manifest = JObj [(''icons'', JObj [(''128'', JStr ''icon128.png'')])]"

text \<open>
  Manifests outside the declared shape or at its edge: \<^verbatim>\<open>permissions\<close> a string and no
  other field; three purpose fields present, the content scripts an empty array; a name
  that is an object with an own property \<^verbatim>\<open>toString\<close>.
\<close>

definition tabsStringManifest :: jsvalue where
  "tabsStringManifest = JObj [(''permissions'', JStr ''tabs'')]"

definition emptyScriptsManifest :: jsvalue where
  "emptyScriptsManifest =
     JObj [(''content_scripts'', JArr []), (''background'', JObj []), (''action'', JObj [])]"

definition unprintableNameManifest :: jsvalue where
  "unprintableNameManifest =
     JObj [(''name'', JObj [(''toString'', JNum (Finite 1))]),
           (''content_scripts'', JArr [JNull]), (''background'', JBool True),
           (''action'', JBool True)]"

section \<open>The string operations\<close>

text \<open>
  \<open>decimal\<close> prints the digits of its argument, \<open>strIncludes\<close> is the substring test and
  \<open>version_format\<close> accepts dotted runs of digits only.
\<close>

lemma digitValue_digit: "d < 10 \<Longrightarrow> digitValue (digitChars ! d) = d"
proof -
  assume "d < 10"
  then have "d = 0 \<or> d = 1 \<or> d = 2 \<or> d = 3 \<or> d = 4 \<or> d = 5 \<or> d = 6 \<or> d = 7 \<or> d = 8 \<or> d = 9"
    by arith
  then show ?thesis
    by (elim disjE) (simp_all add: digitValue_def digitChars_def)
qed

lemma decimal_value: "foldl (\<lambda>acc c. 10 * acc + digitValue c) 0 (decimal n) = n"
proof (induction n rule: decimal.induct)
  case (1 n)
  show ?case
  proof (cases "n < 10")
    case True
    then show ?thesis
      by (subst decimal.simps) (simp add: digitValue_digit)
  next
    case False
    with 1 have "foldl (\<lambda>acc c. 10 * acc + digitValue c) 0 (decimal (n div 10)) = n div 10"
      by simp
    with False show ?thesis
      by (subst decimal.simps) (simp add: digitValue_digit)
  qed
qed

lemma strIncludes_iff: "strIncludes s t \<longleftrightarrow> (\<exists>u v. s = u @ t @ v)"
proof (induction s)
  case Nil
  show ?case by auto
next
  case (Cons c cs)
  show ?case
  proof
    assume "strIncludes (c # cs) t"
    then consider "take (length t) (c # cs) = t" | "strIncludes cs t"
      by auto
    then show "\<exists>u v. c # cs = u @ t @ v"
    proof cases
      case 1
      then have "c # cs = [] @ t @ drop (length t) (c # cs)"
        by (metis append_Nil append_take_drop_id)
      then show ?thesis by blast
    next
      case 2
      with Cons obtain u v where "cs = u @ t @ v" by blast
      then have "c # cs = (c # u) @ t @ v" by simp
      then show ?thesis by blast
    qed
  next
    assume "\<exists>u v. c # cs = u @ t @ v"
    then obtain u v where uv: "c # cs = u @ t @ v" by blast
    show "strIncludes (c # cs) t"
    proof (cases u)
      case Nil
      with uv have "take (length t) (c # cs) = t" by simp
      then show ?thesis by simp
    next
      case (Cons a u')
      with uv have "cs = u' @ t @ v" by simp
      with Cons.IH show ?thesis by auto
    qed
  qed
qed

lemma version_format_examples:
  "version_format ''1.0.0''" "\<not> version_format ''1.0.0a''" "\<not> version_format ''1..0''"
  "\<not> version_format ''1.''" "\<not> version_format []" "version_format ''12''"
  by (simp_all add: version_format_def digitChars_def)

section \<open>The score\<close>

lemma weights_case:
  "weights s = (case s of Critical \<Rightarrow> -25 | High \<Rightarrow> -15 | Medium \<Rightarrow> -10 | Low \<Rightarrow> -5)"
  by (cases s) simp_all

lemma penalties_foldl:
  "foldl (\<lambda>sum result. sum + weights (severity result)) a results =
     a + sum_list (map (\<lambda>r. weights (severity r)) results)"
  by (induction results arbitrary: a) simp_all

lemma penalties_sum_list:
  "penalties results = sum_list (map (\<lambda>r. weights (severity r)) results)"
  by (simp add: penalties_def penalties_foldl)

lemma penalties_append: "penalties (xs @ ys) = penalties xs + penalties ys"
  by (simp add: penalties_sum_list)

lemma weights_negative: "weights s < 0"
  by (cases s) simp_all

lemma penalties_nonpositive: "penalties results \<le> 0"
  unfolding penalties_sum_list
proof (induction results)
  case Nil
  show ?case by simp
next
  case (Cons r rs)
  have "weights (severity r) < 0" by (rule weights_negative)
  with Cons show ?case by simp
qed

text \<open>
  Claim C1. For every list of findings, the score is
  \<open>max 0 (min 100 (100 + the sum of the penalties))\<close>, the penalty of a finding being
  fixed by its severity alone (critical -25, high -15, medium -10, low -5); so the score
  is an integer between 0 and 100.
\<close>

theorem score_formula_and_bounds:
  "calculateOverallScore results =
     max 0 (min 100 (100 + sum_list (map (\<lambda>r. case severity r of
                                             Critical \<Rightarrow> -25 | High \<Rightarrow> -15
                                           | Medium \<Rightarrow> -10 | Low \<Rightarrow> -5) results)))
   \<and> 0 \<le> calculateOverallScore results \<and> calculateOverallScore results \<le> 100"
proof -
  have "penalties results =
          sum_list (map (\<lambda>r. case severity r of Critical \<Rightarrow> -25 | High \<Rightarrow> -15
                                | Medium \<Rightarrow> -10 | Low \<Rightarrow> -5) results)"
    unfolding penalties_sum_list
    by (rule arg_cong [where f = sum_list], rule map_cong) (simp_all add: weights_case)
  then show ?thesis
    by (simp add: calculateOverallScore_def)
qed

text \<open>
  Claim C4. Appending one finding of severity critical to any list of findings gives the
  score \<open>max 0 (min 100 (100 + penalties - 25))\<close> over the penalties of the old list,
  which is the old score lowered by 25 and clamped below at 0.
\<close>

theorem critical_finding_lowers_score_by_25:
  assumes "severity f = Critical"
  shows "calculateOverallScore (results @ [f]) = max 0 (min 100 (100 + penalties results - 25))
         \<and> calculateOverallScore (results @ [f]) = max 0 (calculateOverallScore results - 25)"
proof -
  have p: "penalties (results @ [f]) = penalties results - 25"
    using assms by (simp add: penalties_append) (simp add: penalties_sum_list)
  have "penalties results \<le> 0" by (rule penalties_nonpositive)
  with p show ?thesis
    by (simp add: calculateOverallScore_def)
qed

theorem critical_finding_lowers_score_by_25_witness:
  "calculateOverallScore ([manifestV2Deprecation, nameTooShort] @ [privacyPolicyRequired]) = 45
   \<and> calculateOverallScore [manifestV2Deprecation, nameTooShort] = 70"
proof -
  have s: "severity privacyPolicyRequired = Critical"
    by (simp add: privacyPolicyRequired_def)
  have v: "penalties [manifestV2Deprecation, nameTooShort] = -30"
    by (simp add: penalties_def manifestV2Deprecation_def nameTooShort_def)
  show ?thesis
    using critical_finding_lowers_score_by_25 [OF s, of "[manifestV2Deprecation, nameTooShort]"] v
    by (simp add: calculateOverallScore_def)
qed

section \<open>The checks return on manifests of the declared shape\<close>

lemma forEach_total:
  "(\<And>x. x \<in> set xs \<Longrightarrow> body x = Some (g x)) \<Longrightarrow> forEach body xs = Some (concat (map g xs))"
  by (induction xs) simp_all

lemma forEach_returns:
  "(\<And>x. x \<in> set xs \<Longrightarrow> body x \<noteq> None) \<Longrightarrow> forEach body xs \<noteq> None"
  by (induction xs) (auto simp: bind_eq_None_conv)

lemma toStringJ_scalar: "scalar v \<Longrightarrow> toStringJ P v \<noteq> None"
  by (cases v) simp_all

lemma toNumberJ_scalar: "scalar v \<Longrightarrow> toNumberJ P v \<noteq> None"
  by (cases v) simp_all

lemma getLength_scalar: "scalar v \<Longrightarrow> truthy v \<Longrightarrow> \<exists>n. getLength v = Some n \<and> scalar n"
  by (cases v) simp_all

lemma lengthValidation_scalar:
  assumes "scalar v"
  shows "lengthValidation P v lo hi short long \<noteq> None"
proof (cases "truthy v")
  case False
  then show ?thesis by (simp add: lengthValidation_def)
next
  case True
  with assms obtain n where n: "getLength v = Some n" "scalar n"
    using getLength_scalar by blast
  then obtain k where k: "toNumberJ P n = Some k"
    using toNumberJ_scalar by blast
  show ?thesis
    using True n k by (simp add: lengthValidation_def lessThanNum_def greaterThanNum_def)
qed

lemma requiredFields_returns:
  "forEach (requiredFieldBody (JObj kvs)) required_fields \<noteq> None"
  by (rule forEach_returns) (simp add: requiredFieldBody_def)

lemma validateManifestRequirements_returns:
  assumes "conforms manifest"
  shows "validateManifestRequirements P manifest \<noteq> None"
proof -
  from assms obtain kvs where m: "manifest = JObj kvs"
    by (cases manifest) simp_all
  from assms m have s: "scalar (ownProperty kvs ''name'')" "scalar (ownProperty kvs ''description'')"
    "scalar (ownProperty kvs ''version'')"
    by simp_all
  obtain r1 where r1: "forEach (requiredFieldBody (JObj kvs)) required_fields = Some r1"
    using requiredFields_returns by blast
  obtain r2 where r2: "lengthValidation P (ownProperty kvs ''name'') name_length_min name_length_max
      nameTooShort nameTooLong = Some r2"
    using lengthValidation_scalar [OF s(1)] by blast
  obtain r3 where r3: "lengthValidation P (ownProperty kvs ''description'') description_length_min
      description_length_max descriptionTooShort descriptionTooLong = Some r3"
    using lengthValidation_scalar [OF s(2)] by blast
  obtain str where str: "toStringJ P (ownProperty kvs ''version'') = Some str"
    using toStringJ_scalar [OF s(3)] by blast
  show ?thesis
    by (simp add: validateManifestRequirements_def m r1 r2 r3 str)
qed

lemma findIconFile_scalar:
  assumes "scalar iconPath"
  shows "findIconFile P iconPath files \<noteq> None"
proof -
  obtain suffix where s: "toStringJ P iconPath = Some suffix"
    using toStringJ_scalar [OF assms] by blast
  show ?thesis
    by (induction files) (simp_all add: s)
qed

lemma iconEntryBody_scalar:
  assumes "scalar (snd entry)"
  shows "iconEntryBody P files entry \<noteq> None"
proof -
  obtain sz iconPath where e: "entry = (sz, iconPath)" by (cases entry)
  with assms have sc: "scalar iconPath" by simp
  obtain found where f: "findIconFile P iconPath files = Some found"
    using findIconFile_scalar [OF sc] by blast
  obtain path where p: "toStringJ P iconPath = Some path"
    using toStringJ_scalar [OF sc] by blast
  show ?thesis
    by (simp add: iconEntryBody_def e f p split: option.split)
qed

lemma validateIconRequirements_returns:
  assumes "conforms manifest"
  shows "validateIconRequirements P manifest files \<noteq> None"
proof -
  from assms obtain kvs where m: "manifest = JObj kvs"
    by (cases manifest) simp_all
  from assms m have shape: "iconsShape (ownProperty kvs ''icons'')"
    by simp
  show ?thesis
  proof (cases "truthy (ownProperty kvs ''icons'')")
    case False
    then show ?thesis by (simp add: validateIconRequirements_def m)
  next
    case True
    with shape obtain entries where i: "ownProperty kvs ''icons'' = JObj entries"
      by (cases "ownProperty kvs ''icons''") simp_all
    from shape i have sc: "\<And>entry. entry \<in> set entries \<Longrightarrow> scalar (snd entry)"
      by (simp add: list_all_iff)
    have a: "forEach (requiredSizeBody (JObj entries)) required_sizes \<noteq> None"
      by (rule forEach_returns) (simp add: requiredSizeBody_def)
    have b: "forEach (recommendedSizeBody (JObj entries)) recommended_sizes \<noteq> None"
      by (rule forEach_returns) (simp add: recommendedSizeBody_def)
    have c: "forEach (iconEntryBody P files) entries \<noteq> None"
      by (rule forEach_returns) (simp add: iconEntryBody_scalar sc)
    from a b c show ?thesis
      by (auto simp: validateIconRequirements_def m i)
  qed
qed


lemma someLoop_strings:
  "list_all isString xs \<Longrightarrow> someLoop (\<lambda>p. includesJ p s) xs \<noteq> None"
proof (induction xs)
  case Nil
  show ?case by simp
next
  case (Cons x xs)
  then obtain t where "x = JStr t" by (cases x) simp_all
  with Cons show ?case by auto
qed

lemma someLoop_pure: "someLoop (\<lambda>p. Some (pred p)) xs = Some (list_ex pred xs)"
  by (induction xs) simp_all

lemma dangerous_returns: "forEach dangerousBody items \<noteq> None"
  by (rule forEach_returns) (simp add: dangerousBody_def)

lemma validatePermissionRequirements_returns:
  assumes "conforms manifest"
  shows "validatePermissionRequirements P manifest \<noteq> None"
proof -
  from assms obtain kvs where m: "manifest = JObj kvs"
    by (cases manifest) simp_all
  from assms m have shape: "permissionsShape (ownProperty kvs ''permissions'')"
    by simp
  show ?thesis
  proof (cases "truthy (ownProperty kvs ''permissions'')")
    case False
    then show ?thesis by (simp add: validatePermissionRequirements_def m)
  next
    case True
    with shape obtain xs where p: "ownProperty kvs ''permissions'' = JArr xs"
      by (cases "ownProperty kvs ''permissions''") simp_all
    from shape p have strings: "list_all isString xs" by simp
    obtain broad where b: "forEach dangerousBody xs = Some broad"
      using dangerous_returns by blast
    obtain hosts where h: "someLoop (\<lambda>p. includesJ p ''://'') xs = Some hosts"
      using someLoop_strings [OF strings] by blast
    show ?thesis
      by (simp add: validatePermissionRequirements_def m p b h greaterThanNum_def)
  qed
qed

lemma validatePrivacyRequirements_returns:
  assumes "conforms manifest"
  shows "validatePrivacyRequirements P manifest \<noteq> None"
proof -
  from assms obtain kvs where m: "manifest = JObj kvs"
    by (cases manifest) simp_all
  from assms m have shape: "permissionsShape (ownProperty kvs ''permissions'')"
    by simp
  then show ?thesis
    by (cases "ownProperty kvs ''permissions''")
       (simp_all add: validatePrivacyRequirements_def m optionalSome_def optionalIncludes_def
          nullish_def someLoop_pure)
qed

lemma arrayJoin_scalars:
  "scalar a \<Longrightarrow> scalar b \<Longrightarrow> arrayJoin P sep [a, b] \<noteq> None"
  using toStringJ_scalar [of a P] toStringJ_scalar [of b P]
  by (auto simp: arrayJoin_def)

lemma prohibited_returns: "forEach (prohibitedBody textContent) prohibited_content \<noteq> None"
  by (rule forEach_returns) (simp add: prohibitedBody_def)

lemma hasContentScripts_shape:
  "contentScriptsShape v \<Longrightarrow> hasContentScripts P v \<noteq> None"
  by (cases v) (simp_all add: hasContentScripts_def nullish_def greaterThanNum_def)

lemma validateContentPolicies_returns:
  assumes "conforms manifest"
  shows "validateContentPolicies P manifest files \<noteq> None"
proof -
  from assms obtain kvs where m: "manifest = JObj kvs"
    by (cases manifest) simp_all
  from assms m have s: "scalar (ownProperty kvs ''name'')" "scalar (ownProperty kvs ''description'')"
    "contentScriptsShape (ownProperty kvs ''content_scripts'')"
    by simp_all
  obtain joined where j: "arrayJoin P '' '' [ownProperty kvs ''name'', ownProperty kvs ''description''] = Some joined"
    using arrayJoin_scalars [OF s(1) s(2)] by blast
  obtain kw where k: "forEach (prohibitedBody (toLowerCase P joined)) prohibited_content = Some kw"
    using prohibited_returns by blast
  obtain scripts where c: "hasContentScripts P (ownProperty kvs ''content_scripts'') = Some scripts"
    using hasContentScripts_shape [OF s(3)] by blast
  show ?thesis
    by (simp add: validateContentPolicies_def m j k c Let_def)
qed

lemma runChecks_returns:
  assumes "conforms manifest"
  shows "runChecks P manifest files \<noteq> None"
  using validateManifestRequirements_returns [OF assms, of P]
    validateIconRequirements_returns [OF assms, of P files]
    validatePermissionRequirements_returns [OF assms, of P]
    validatePrivacyRequirements_returns [OF assms, of P]
    validateContentPolicies_returns [OF assms, of P files]
  by (auto simp: runChecks_def)


lemmas manifest_check_defs =
  validateManifestRequirements_def requiredFieldBody_def required_fields_def
  lengthValidation_def lessThanNum_def greaterThanNum_def ownProperty_def
  name_length_min_def name_length_max_def description_length_min_def
  description_length_max_def version_format_def digitChars_def

lemmas content_check_defs =
  validateContentPolicies_def arrayJoin_def examplePlatform_def exampleToLowerCase_def
  prohibitedBody_def prohibited_content_def hasContentScripts_def nullish_def
  greaterThanNum_def totalSize_def max_package_size_def ownProperty_def

lemma stringPermissions_manifest_check:
  "validateManifestRequirements P stringPermissionsManifest = Some []"
  by (simp add: stringPermissionsManifest_def manifest_check_defs)

lemma stringPermissions_icon_check:
  "validateIconRequirements P stringPermissionsManifest files = Some [noIconsSpecified]"
  by (simp add: stringPermissionsManifest_def validateIconRequirements_def ownProperty_def)

lemma stringPermissions_permission_check:
  "validatePermissionRequirements P stringPermissionsManifest = None"
  by (simp add: stringPermissionsManifest_def validatePermissionRequirements_def ownProperty_def
        dangerousBody_def greaterThanNum_def dangerous_def)

lemma stringPermissions_run: "runChecks P stringPermissionsManifest files = None"
  by (simp add: runChecks_def stringPermissions_manifest_check stringPermissions_icon_check
        stringPermissions_permission_check)

text \<open>
  Claim C8, as amended. For every manifest of the declared shape (an object whose
  \<^verbatim>\<open>name\<close>, \<^verbatim>\<open>description\<close>, \<^verbatim>\<open>version\<close> and icon paths are scalars or absent, whose
  \<^verbatim>\<open>icons\<close> is absent, falsy or an object, whose \<^verbatim>\<open>permissions\<close> is absent, \<^verbatim>\<open>null\<close> or
  an array of strings, and whose \<^verbatim>\<open>content_scripts\<close> is not an object) and every file
  set, each of the five checks returns, the run publishes the findings of the five in
  order and reaches progress 100. Absent fields never make a check throw.
\<close>

theorem run_completes_on_declared_shape:
  assumes "conforms manifest"
  shows "\<exists>r1 r2 r3 r4 r5.
           validateManifestRequirements P manifest = Some r1 \<and>
           validateIconRequirements P manifest files = Some r2 \<and>
           validatePermissionRequirements P manifest = Some r3 \<and>
           validatePrivacyRequirements P manifest = Some r4 \<and>
           validateContentPolicies P manifest files = Some r5 \<and>
           runChecks P manifest files = Some (r1 @ r2 @ r3 @ r4 @ r5) \<and>
           progressReached P manifest files = 100 \<and>
           validationResults (validateForStore P manifest files st) = r1 @ r2 @ r3 @ r4 @ r5 \<and>
           progress (validateForStore P manifest files st) = 100 \<and>
           toasts (validateForStore P manifest files st) =
             toasts st @ [completeToast P (r1 @ r2 @ r3 @ r4 @ r5)]"
proof -
  obtain r1 where r1: "validateManifestRequirements P manifest = Some r1"
    using validateManifestRequirements_returns [OF assms] by blast
  obtain r2 where r2: "validateIconRequirements P manifest files = Some r2"
    using validateIconRequirements_returns [OF assms] by blast
  obtain r3 where r3: "validatePermissionRequirements P manifest = Some r3"
    using validatePermissionRequirements_returns [OF assms] by blast
  obtain r4 where r4: "validatePrivacyRequirements P manifest = Some r4"
    using validatePrivacyRequirements_returns [OF assms] by blast
  obtain r5 where r5: "validateContentPolicies P manifest files = Some r5"
    using validateContentPolicies_returns [OF assms] by blast
  have run: "runChecks P manifest files = Some (r1 @ r2 @ r3 @ r4 @ r5)"
    by (simp add: runChecks_def r1 r2 r3 r4 r5)
  have "progressReached P manifest files = 100"
    by (simp add: progressReached_def r1 r2 r3 r4 r5)
  with r1 r2 r3 r4 r5 run show ?thesis
    by (simp add: validateForStore_def)
qed

theorem run_completes_on_declared_shape_witness:
  "conforms (JObj []) \<and>
   runChecks examplePlatform (JObj []) [] =
     Some ([missingField ''name'', missingField ''version'', missingField ''description'',
            missingField ''manifest_version''] @ [noIconsSpecified] @ [] @ [] @ []) \<and>
   progress (validateForStore examplePlatform (JObj []) [] initialState) = 100"
proof -
  have c: "conforms (JObj [])"
    by (simp add: ownProperty_def)
  have r1: "validateManifestRequirements examplePlatform (JObj []) =
      Some [missingField ''name'', missingField ''version'', missingField ''description'',
            missingField ''manifest_version'']"
    by (simp add: manifest_check_defs)
  have r2: "validateIconRequirements examplePlatform (JObj []) [] = Some [noIconsSpecified]"
    by (simp add: validateIconRequirements_def ownProperty_def)
  have r3: "validatePermissionRequirements examplePlatform (JObj []) = Some []"
    by (simp add: validatePermissionRequirements_def ownProperty_def)
  have r4: "validatePrivacyRequirements examplePlatform (JObj []) = Some []"
    by (simp add: validatePrivacyRequirements_def ownProperty_def optionalSome_def
          optionalIncludes_def nullish_def)
  have r5: "validateContentPolicies examplePlatform (JObj []) [] = Some []"
    by (simp add: content_check_defs)
  show ?thesis
    using run_completes_on_declared_shape [OF c, of examplePlatform "[]" initialState] c r1 r2 r3 r4 r5
    by auto
qed

text \<open>
  The claim as stated fails on a decoded manifest of another shape: with
  \<^verbatim>\<open>"permissions": "tabs"\<close> in a Manifest V3 document, \<^verbatim>\<open>manifest.permissions.some\<close>
  is not a function, the permission check throws, the privacy and content checks never
  run, and the run ends in the \<^verbatim>\<open>catch\<close> with the toast \<^verbatim>\<open>Validation failed\<close>.
\<close>

theorem run_aborts_on_string_permissions:
  "validatePermissionRequirements examplePlatform stringPermissionsManifest = None \<and>
   runChecks examplePlatform stringPermissionsManifest [] = None \<and>
   progressReached examplePlatform stringPermissionsManifest [] = 40 \<and>
   validateForStore examplePlatform stringPermissionsManifest [] initialState =
     \<lparr>validationResults = [], isValidating = False, progress = 40, overallScore = 0,
      toasts = [failedToast]\<rparr>"
proof -
  have run: "runChecks examplePlatform stringPermissionsManifest [] = None"
    by (simp add: runChecks_def stringPermissions_manifest_check stringPermissions_icon_check
          stringPermissions_permission_check)
  have reached: "progressReached examplePlatform stringPermissionsManifest [] = 40"
    by (simp add: progressReached_def stringPermissions_manifest_check
          stringPermissions_icon_check stringPermissions_permission_check)
  show ?thesis
    by (simp add: stringPermissions_permission_check run reached validateForStore_def
          initialState_def)
qed

section \<open>Runs and their reports\<close>

lemma demoManifest_run:
  "runChecks examplePlatform demoManifest [] =
     Some [noIconsSpecified, broadPermission ''tabs'', privacyPolicyRequired]"
proof -
  have r1: "validateManifestRequirements examplePlatform demoManifest = Some []"
    by (simp add: demoManifest_def manifest_check_defs)
  have r2: "validateIconRequirements examplePlatform demoManifest [] = Some [noIconsSpecified]"
    by (simp add: demoManifest_def validateIconRequirements_def ownProperty_def)
  have r3: "validatePermissionRequirements examplePlatform demoManifest =
      Some [broadPermission ''tabs'']"
    by (simp add: demoManifest_def validatePermissionRequirements_def ownProperty_def
          dangerousBody_def greaterThanNum_def dangerous_def)
  have r4: "validatePrivacyRequirements examplePlatform demoManifest = Some [privacyPolicyRequired]"
    by (simp add: demoManifest_def validatePrivacyRequirements_def ownProperty_def
          optionalSome_def optionalIncludes_def nullish_def data_collection_apis_def)
  have r5: "validateContentPolicies examplePlatform demoManifest [] = Some []"
    by (simp add: demoManifest_def content_check_defs)
  show ?thesis
    by (simp add: runChecks_def r1 r2 r3 r4 r5)
qed

lemma demoManifest_state:
  "validationResults (validateForStore examplePlatform demoManifest [] initialState) =
     [noIconsSpecified, broadPermission ''tabs'', privacyPolicyRequired] \<and>
   overallScore (validateForStore examplePlatform demoManifest [] initialState) = 35"
  by (simp add: validateForStore_def demoManifest_run calculateOverallScore_def penalties_def
        noIconsSpecified_def broadPermission_def privacyPolicyRequired_def)

text \<open>
  Claim C2, as amended. Whenever the five checks return, and they do on every manifest of
  the declared shape, the findings and the score that the run publishes are the same from
  any state an earlier run has left, and the score is \<open>calculateOverallScore\<close> of the
  findings of this run. When a check throws, the run publishes neither findings nor score
  and those of the state before remain. In both cases a second run on the same inputs
  leaves the findings and the score of the first.
\<close>

theorem validateForStore_deterministic:
  "(\<forall>results. runChecks P manifest files = Some results \<longrightarrow>
      validationResults (validateForStore P manifest files st1) = results \<and>
      validationResults (validateForStore P manifest files st2) = results \<and>
      overallScore (validateForStore P manifest files st1) = calculateOverallScore results \<and>
      overallScore (validateForStore P manifest files st2) = calculateOverallScore results) \<and>
   (conforms manifest \<longrightarrow> runChecks P manifest files \<noteq> None) \<and>
   (runChecks P manifest files = None \<longrightarrow>
      validationResults (validateForStore P manifest files st) = validationResults st \<and>
      overallScore (validateForStore P manifest files st) = overallScore st) \<and>
   validationResults (validateForStore P manifest files (validateForStore P manifest files st)) =
     validationResults (validateForStore P manifest files st) \<and>
   overallScore (validateForStore P manifest files (validateForStore P manifest files st)) =
     overallScore (validateForStore P manifest files st)"
  using runChecks_returns [of manifest P files]
  by (cases "runChecks P manifest files") (auto simp: validateForStore_def)

theorem validateForStore_deterministic_witness:
  "conforms demoManifest \<and>
   validationResults (validateForStore examplePlatform demoManifest [] initialState) =
     [noIconsSpecified, broadPermission ''tabs'', privacyPolicyRequired] \<and>
   validationResults (validateForStore examplePlatform demoManifest [] staleState) =
     [noIconsSpecified, broadPermission ''tabs'', privacyPolicyRequired] \<and>
   overallScore (validateForStore examplePlatform demoManifest [] initialState) = 35 \<and>
   overallScore (validateForStore examplePlatform demoManifest [] staleState) = 35 \<and>
   overallScore staleState = 85"
proof -
  have score: "calculateOverallScore [noIconsSpecified, broadPermission ''tabs'', privacyPolicyRequired] = 35"
    by (simp add: calculateOverallScore_def penalties_def noIconsSpecified_def broadPermission_def
          privacyPolicyRequired_def)
  have stale: "overallScore staleState = 85"
    by (simp add: staleState_def)
  have c: "conforms demoManifest"
    by (simp add: demoManifest_def ownProperty_def)
  show ?thesis
    using validateForStore_deterministic
            [where P = examplePlatform and manifest = demoManifest and files = "[]"
               and ?st1.0 = initialState and ?st2.0 = staleState and st = initialState]
          demoManifest_run score stale c
    by simp
qed

text \<open>
  The claim as stated fails when a check throws: the \<^verbatim>\<open>catch\<close> shows a toast and sets
  neither the results nor the score. The run on the manifest with
  \<^verbatim>\<open>"permissions": "tabs"\<close> shows no findings and the score 0 in a fresh component, and
  the three findings and the score 35 of the previous run after a run on the manifest
  with \<^verbatim>\<open>"permissions": ["tabs"]\<close>.
\<close>

theorem aborted_run_keeps_previous_report:
  "validationResults (validateForStore examplePlatform stringPermissionsManifest [] initialState) = [] \<and>
   overallScore (validateForStore examplePlatform stringPermissionsManifest [] initialState) = 0 \<and>
   validationResults
     (validateForStore examplePlatform stringPermissionsManifest []
        (validateForStore examplePlatform demoManifest [] initialState)) =
     [noIconsSpecified, broadPermission ''tabs'', privacyPolicyRequired] \<and>
   overallScore
     (validateForStore examplePlatform stringPermissionsManifest []
        (validateForStore examplePlatform demoManifest [] initialState)) = 35"
proof -
  have a: "validationResults (validateForStore examplePlatform stringPermissionsManifest [] st) =
      validationResults st \<and>
    overallScore (validateForStore examplePlatform stringPermissionsManifest [] st) = overallScore st"
    for st
    by (simp add: validateForStore_def stringPermissions_run)
  show ?thesis
    using a [of initialState] a [of "validateForStore examplePlatform demoManifest [] initialState"]
      demoManifest_state
    by (simp add: initialState_def)
qed

lemma missingFields_penalties:
  "penalties ([missingField a, missingField b, missingField c, missingField d] @ rest) \<le> -100"
proof -
  have "penalties rest \<le> 0" by (rule penalties_nonpositive)
  then show ?thesis
    by (simp add: penalties_sum_list missingField_def)
qed

text \<open>
  Claim C3, as amended. For every manifest from which \<^verbatim>\<open>name\<close>, \<^verbatim>\<open>version\<close>,
  \<^verbatim>\<open>description\<close> and \<^verbatim>\<open>manifest_version\<close> are all missing, and every file set, the
  manifest check pushes exactly four findings, one \<^verbatim>\<open>Missing <field>\<close> for each field,
  each an error of severity critical. Whenever the five checks return, and they do on every
  such manifest of the declared shape, the score that the run sets is 0. When a later
  check throws, the run sets no score and the score of the state before remains.
\<close>

theorem all_required_fields_missing:
  assumes "getField manifest ''name'' = Some JUndefined"
    and "getField manifest ''version'' = Some JUndefined"
    and "getField manifest ''description'' = Some JUndefined"
    and "getField manifest ''manifest_version'' = Some JUndefined"
  shows "validateManifestRequirements P manifest =
           Some [missingField ''name'', missingField ''version'', missingField ''description'',
                 missingField ''manifest_version''] \<and>
         map title [missingField ''name'', missingField ''version'', missingField ''description'',
                    missingField ''manifest_version''] =
           [''Missing name'', ''Missing version'', ''Missing description'',
            ''Missing manifest_version''] \<and>
         type (missingField key) = Error \<and> severity (missingField key) = Critical \<and>
         (\<forall>results. runChecks P manifest files = Some results \<longrightarrow>
            calculateOverallScore results = 0 \<and>
            overallScore (validateForStore P manifest files st) = 0) \<and>
         (conforms manifest \<longrightarrow> runChecks P manifest files \<noteq> None) \<and>
         (runChecks P manifest files = None \<longrightarrow>
            overallScore (validateForStore P manifest files st) = overallScore st)"
proof -
  have check: "validateManifestRequirements P manifest =
           Some [missingField ''name'', missingField ''version'', missingField ''description'',
                 missingField ''manifest_version'']"
    using assms
    by (simp add: validateManifestRequirements_def requiredFieldBody_def required_fields_def
          lengthValidation_def)
  have score: "calculateOverallScore results = 0 \<and>
      overallScore (validateForStore P manifest files st) = 0"
    if run: "runChecks P manifest files = Some results" for results
  proof -
    from run check obtain rest where
      "results = [missingField ''name'', missingField ''version'', missingField ''description'',
                  missingField ''manifest_version''] @ rest"
      by (auto simp: runChecks_def bind_eq_Some_conv)
    then have "penalties results \<le> -100"
      using missingFields_penalties by simp
    then have "calculateOverallScore results = 0"
      by (simp add: calculateOverallScore_def)
    with run show ?thesis
      by (simp add: validateForStore_def)
  qed
  have aborted: "overallScore (validateForStore P manifest files st) = overallScore st"
    if "runChecks P manifest files = None"
    using that by (simp add: validateForStore_def)
  show ?thesis
    using check score aborted runChecks_returns
    by (simp add: missingField_def)
qed

theorem all_required_fields_missing_witness:
  "validateManifestRequirements examplePlatform
       (JObj [(''permissions'', JArr [JStr ''tabs''])]) =
     Some [missingField ''name'', missingField ''version'', missingField ''description'',
           missingField ''manifest_version''] \<and>
   runChecks examplePlatform (JObj [(''permissions'', JArr [JStr ''tabs''])]) [] \<noteq> None \<and>
   overallScore (validateForStore examplePlatform (JObj [(''permissions'', JArr [JStr ''tabs''])]) []
                   staleState) = 0"
proof -
  let ?m = "JObj [(''permissions'', JArr [JStr ''tabs''])]"
  have g: "getField ?m ''name'' = Some JUndefined" "getField ?m ''version'' = Some JUndefined"
    "getField ?m ''description'' = Some JUndefined"
    "getField ?m ''manifest_version'' = Some JUndefined"
    by (simp_all add: ownProperty_def)
  have c: "conforms ?m"
    by (simp add: ownProperty_def)
  show ?thesis
    using all_required_fields_missing
            [OF g, where P = examplePlatform and files = "[]" and st = staleState] c
    by auto
qed

text \<open>
  The claim as stated fails when a later check throws: the manifest
  \<^verbatim>\<open>{"permissions": "tabs"}\<close> lacks the four fields, its permission check returns, its
  privacy check throws on \<^verbatim>\<open>manifest.permissions?.some\<close>, and the run sets no score:
  after a run that left the score 85, the score is still 85.
\<close>

theorem missing_fields_run_aborts:
  "getField tabsStringManifest ''name'' = Some JUndefined \<and>
   getField tabsStringManifest ''version'' = Some JUndefined \<and>
   getField tabsStringManifest ''description'' = Some JUndefined \<and>
   getField tabsStringManifest ''manifest_version'' = Some JUndefined \<and>
   validatePermissionRequirements examplePlatform tabsStringManifest = Some [] \<and>
   validatePrivacyRequirements examplePlatform tabsStringManifest = None \<and>
   runChecks examplePlatform tabsStringManifest [] = None \<and>
   overallScore staleState = 85 \<and>
   overallScore (validateForStore examplePlatform tabsStringManifest [] staleState) = 85"
proof -
  have r3: "validatePermissionRequirements examplePlatform tabsStringManifest = Some []"
    by (simp add: tabsStringManifest_def validatePermissionRequirements_def ownProperty_def
          dangerousBody_def greaterThanNum_def dangerous_def)
  have r4: "validatePrivacyRequirements examplePlatform tabsStringManifest = None"
    by (simp add: tabsStringManifest_def validatePrivacyRequirements_def ownProperty_def
          optionalSome_def nullish_def)
  have run: "runChecks examplePlatform tabsStringManifest [] = None"
    by (simp add: runChecks_def r4 bind_eq_None_conv)
  show ?thesis
    by (simp add: r3 r4 run validateForStore_def)
       (simp add: tabsStringManifest_def ownProperty_def staleState_def)
qed

section \<open>The manifest check\<close>

lemma lengthValidation_cases:
  "lengthValidation P v lo hi short long = Some r \<Longrightarrow>
     (r = [] \<or> r = [short] \<or> r = [long]) \<and> (\<not> truthy v \<longrightarrow> r = [])"
  by (auto simp: lengthValidation_def bind_eq_Some_conv split: if_splits)

lemma validateManifestRequirements_parts:
  assumes "validateManifestRequirements P manifest = Some results"
  shows "\<exists>name version description manifest_version nameFindings descriptionFindings versionFindings.
           getField manifest ''name'' = Some name \<and>
           getField manifest ''version'' = Some version \<and>
           getField manifest ''description'' = Some description \<and>
           getField manifest ''manifest_version'' = Some manifest_version \<and>
           (nameFindings = [] \<or> nameFindings = [nameTooShort] \<or> nameFindings = [nameTooLong]) \<and>
           (\<not> truthy name \<longrightarrow> nameFindings = []) \<and>
           (descriptionFindings = [] \<or> descriptionFindings = [descriptionTooShort] \<or>
            descriptionFindings = [descriptionTooLong]) \<and>
           (\<not> truthy description \<longrightarrow> descriptionFindings = []) \<and>
           (versionFindings = [] \<or> versionFindings = [invalidVersionFormat]) \<and>
           (\<not> truthy version \<longrightarrow> versionFindings = []) \<and>
           results =
             (if truthy name then [] else [missingField ''name'']) @
             (if truthy version then [] else [missingField ''version'']) @
             (if truthy description then [] else [missingField ''description'']) @
             (if truthy manifest_version then [] else [missingField ''manifest_version'']) @
             nameFindings @ descriptionFindings @ versionFindings @
             (if manifest_version = JNum (Finite 2) then [manifestV2Deprecation] else [])"
proof -
  from assms obtain missing name nameFindings description descriptionFindings version
      versionFindings manifest_version where
    missing: "forEach (requiredFieldBody manifest) required_fields = Some missing" and
    name: "getField manifest ''name'' = Some name" and
    nameF: "lengthValidation P name name_length_min name_length_max nameTooShort nameTooLong =
              Some nameFindings" and
    description: "getField manifest ''description'' = Some description" and
    descF: "lengthValidation P description description_length_min description_length_max
              descriptionTooShort descriptionTooLong = Some descriptionFindings" and
    version: "getField manifest ''version'' = Some version" and
    verF: "(if truthy version then
               do { s \<leftarrow> toStringJ P version;
                    Some (if \<not> version_format s then [invalidVersionFormat] else []) }
             else Some []) = Some versionFindings" and
    mv: "getField manifest ''manifest_version'' = Some manifest_version" and
    results: "results = missing @ nameFindings @ descriptionFindings @ versionFindings @
                (if manifest_version = JNum (Finite 2) then [manifestV2Deprecation] else [])"
    unfolding validateManifestRequirements_def bind_eq_Some_conv by (elim exE conjE) blast
  from missing name version description mv have m:
    "missing = (if truthy name then [] else [missingField ''name'']) @
             (if truthy version then [] else [missingField ''version'']) @
             (if truthy description then [] else [missingField ''description'']) @
             (if truthy manifest_version then [] else [missingField ''manifest_version''])"
    by (auto simp: required_fields_def requiredFieldBody_def)
  from verF have v: "(versionFindings = [] \<or> versionFindings = [invalidVersionFormat]) \<and>
           (\<not> truthy version \<longrightarrow> versionFindings = [])"
    by (auto simp: bind_eq_Some_conv split: if_splits)
  show ?thesis
    by (rule exI [of _ name], rule exI [of _ version], rule exI [of _ description],
        rule exI [of _ manifest_version], rule exI [of _ nameFindings],
        rule exI [of _ descriptionFindings], rule exI [of _ versionFindings])
       (use name version description mv lengthValidation_cases [OF nameF]
          lengthValidation_cases [OF descF] v results m in simp)
qed


lemmas manifest_finding_defs =
  missingField_def nameTooShort_def nameTooLong_def descriptionTooShort_def
  descriptionTooLong_def invalidVersionFormat_def manifestV2Deprecation_def

lemma followUp_titles:
  assumes "nameFindings = [] \<or> nameFindings = [nameTooShort] \<or> nameFindings = [nameTooLong]"
    and "descriptionFindings = [] \<or> descriptionFindings = [descriptionTooShort] \<or>
         descriptionFindings = [descriptionTooLong]"
    and "versionFindings = [] \<or> versionFindings = [invalidVersionFormat]"
  shows "title ` set nameFindings \<subseteq> {''Name too short'', ''Name too long''}"
    and "title ` set descriptionFindings \<subseteq> {''Description too short'', ''Description too long''}"
    and "title ` set versionFindings \<subseteq> {''Invalid version format''}"
proof -
  show "title ` set nameFindings \<subseteq> {''Name too short'', ''Name too long''}"
    using assms(1) by (auto simp: nameTooShort_def nameTooLong_def)
  show "title ` set descriptionFindings \<subseteq> {''Description too short'', ''Description too long''}"
    using assms(2) by (auto simp: descriptionTooShort_def descriptionTooLong_def)
  show "title ` set versionFindings \<subseteq> {''Invalid version format''}"
    using assms(3) by (auto simp: invalidVersionFormat_def)
qed

lemma filter_title_none:
  "title ` set rs \<subseteq> S \<Longrightarrow> t \<notin> S \<Longrightarrow> filter (\<lambda>r. title r = t) rs = []"
  by (auto simp: filter_empty_conv)

lemma title_missingField: "title (missingField key) = ''Missing '' @ key"
  by (simp add: missingField_def)

lemma title_manifestV2Deprecation: "title manifestV2Deprecation = ''Manifest V2 deprecation''"
  by (simp add: manifestV2Deprecation_def)

text \<open>
  Claim C10. The presence test of a required field is \<^verbatim>\<open>!manifest[field]\<close>: for every
  manifest in which \<^verbatim>\<open>name\<close>, \<^verbatim>\<open>version\<close>, \<^verbatim>\<open>description\<close> or \<^verbatim>\<open>manifest_version\<close> is
  bound to the empty string, to 0, to \<^verbatim>\<open>false\<close> or to \<^verbatim>\<open>null\<close>, the findings of the
  manifest check hold the critical error \<^verbatim>\<open>Missing <field>\<close> for that field, once, and
  none of the findings of the follow-up validation of that field (the length findings of
  the name or the description, the version-format finding, the Manifest V2 finding).
\<close>

theorem falsy_required_field_reported_missing:
  assumes key: "key \<in> set required_fields"
    and field: "getField manifest key = Some v"
    and falsy: "v = JStr [] \<or> v = JNum (Finite 0) \<or> v = JBool False \<or> v = JNull"
    and check: "validateManifestRequirements P manifest = Some results"
  shows "filter (\<lambda>r. title r = ''Missing '' @ key) results = [missingField key] \<and>
         type (missingField key) = Error \<and> severity (missingField key) = Critical \<and>
         (key = ''name'' \<longrightarrow>
            ''Name too short'' \<notin> title ` set results \<and> ''Name too long'' \<notin> title ` set results) \<and>
         (key = ''description'' \<longrightarrow>
            ''Description too short'' \<notin> title ` set results \<and>
            ''Description too long'' \<notin> title ` set results) \<and>
         (key = ''version'' \<longrightarrow> ''Invalid version format'' \<notin> title ` set results) \<and>
         (key = ''manifest_version'' \<longrightarrow> ''Manifest V2 deprecation'' \<notin> title ` set results)"
proof -
  from falsy have v: "\<not> truthy v" "v \<noteq> JNum (Finite 2)"
    by auto
  from validateManifestRequirements_parts [OF check]
  obtain name version description manifest_version nameFindings descriptionFindings
      versionFindings where
    p: "getField manifest ''name'' = Some name"
      "getField manifest ''version'' = Some version"
      "getField manifest ''description'' = Some description"
      "getField manifest ''manifest_version'' = Some manifest_version" and
    n: "nameFindings = [] \<or> nameFindings = [nameTooShort] \<or> nameFindings = [nameTooLong]"
      "\<not> truthy name \<longrightarrow> nameFindings = []" and
    d: "descriptionFindings = [] \<or> descriptionFindings = [descriptionTooShort] \<or>
        descriptionFindings = [descriptionTooLong]"
      "\<not> truthy description \<longrightarrow> descriptionFindings = []" and
    ver: "versionFindings = [] \<or> versionFindings = [invalidVersionFormat]"
      "\<not> truthy version \<longrightarrow> versionFindings = []" and
    results: "results =
             (if truthy name then [] else [missingField ''name'']) @
             (if truthy version then [] else [missingField ''version'']) @
             (if truthy description then [] else [missingField ''description'']) @
             (if truthy manifest_version then [] else [missingField ''manifest_version'']) @
             nameFindings @ descriptionFindings @ versionFindings @
             (if manifest_version = JNum (Finite 2) then [manifestV2Deprecation] else [])"
    by blast
  note t = followUp_titles [OF n(1) d(1) ver(1)]
  have severity: "type (missingField key) = Error \<and> severity (missingField key) = Critical"
    by (simp add: missingField_def)
  from key consider "key = ''name''" | "key = ''version''" | "key = ''description''"
    | "key = ''manifest_version''"
    by (auto simp: required_fields_def)
  then show ?thesis
  proof cases
    case 1
    with field p v n have f: "\<not> truthy name" "nameFindings = []" by simp_all
    have "filter (\<lambda>r. title r = ''Missing name'') descriptionFindings = []"
      "filter (\<lambda>r. title r = ''Missing name'') versionFindings = []"
      by (rule filter_title_none [OF t(2)], simp, rule filter_title_none [OF t(3)], simp)
    then have "filter (\<lambda>r. title r = ''Missing name'') results = [missingField ''name'']"
      by (simp add: results f title_missingField title_manifestV2Deprecation)
    moreover have "''Name too short'' \<notin> title ` set results \<and> ''Name too long'' \<notin> title ` set results"
      using t(2) t(3)
      by (auto simp: results f image_Un title_missingField title_manifestV2Deprecation)
    ultimately show ?thesis
      using 1 severity by simp
  next
    case 2
    with field p v ver have f: "\<not> truthy version" "versionFindings = []" by simp_all
    have "filter (\<lambda>r. title r = ''Missing version'') nameFindings = []"
      "filter (\<lambda>r. title r = ''Missing version'') descriptionFindings = []"
      by (rule filter_title_none [OF t(1)], simp, rule filter_title_none [OF t(2)], simp)
    then have "filter (\<lambda>r. title r = ''Missing version'') results = [missingField ''version'']"
      by (simp add: results f title_missingField title_manifestV2Deprecation)
    moreover have "''Invalid version format'' \<notin> title ` set results"
      using t(1) t(2)
      by (auto simp: results f image_Un title_missingField title_manifestV2Deprecation)
    ultimately show ?thesis
      using 2 severity by simp
  next
    case 3
    with field p v d have f: "\<not> truthy description" "descriptionFindings = []" by simp_all
    have "filter (\<lambda>r. title r = ''Missing description'') nameFindings = []"
      "filter (\<lambda>r. title r = ''Missing description'') versionFindings = []"
      by (rule filter_title_none [OF t(1)], simp, rule filter_title_none [OF t(3)], simp)
    then have "filter (\<lambda>r. title r = ''Missing description'') results =
        [missingField ''description'']"
      by (simp add: results f title_missingField title_manifestV2Deprecation)
    moreover have "''Description too short'' \<notin> title ` set results \<and>
        ''Description too long'' \<notin> title ` set results"
      using t(1) t(3)
      by (auto simp: results f image_Un title_missingField title_manifestV2Deprecation)
    ultimately show ?thesis
      using 3 severity by simp
  next
    case 4
    with field p v have f: "\<not> truthy manifest_version" "manifest_version \<noteq> JNum (Finite 2)"
      by simp_all
    have "filter (\<lambda>r. title r = ''Missing manifest_version'') nameFindings = []"
      "filter (\<lambda>r. title r = ''Missing manifest_version'') descriptionFindings = []"
      "filter (\<lambda>r. title r = ''Missing manifest_version'') versionFindings = []"
      by (rule filter_title_none [OF t(1)], simp, rule filter_title_none [OF t(2)], simp,
          rule filter_title_none [OF t(3)], simp)
    then have "filter (\<lambda>r. title r = ''Missing manifest_version'') results =
        [missingField ''manifest_version'']"
      by (simp add: results f title_missingField)
    moreover have "''Manifest V2 deprecation'' \<notin> title ` set results"
      using t(1) t(2) t(3)
      by (auto simp: results f image_Un title_missingField)
    ultimately show ?thesis
      using 4 severity by simp
  qed
qed


theorem falsy_required_field_reported_missing_witness:
  "validateManifestRequirements examplePlatform falsyNameManifest =
     Some [missingField ''name'', missingField ''manifest_version''] \<and>
   filter (\<lambda>r. title r = ''Missing '' @ ''name'')
     [missingField ''name'', missingField ''manifest_version''] = [missingField ''name''] \<and>
   ''Name too short'' \<notin> title ` set [missingField ''name'', missingField ''manifest_version'']"
proof -
  have key: "''name'' \<in> set required_fields"
    by (simp add: required_fields_def)
  have field: "getField falsyNameManifest ''name'' = Some (JStr [])"
    by (simp add: falsyNameManifest_def ownProperty_def)
  have falsy: "JStr [] = JStr [] \<or> JStr [] = JNum (Finite 0) \<or> JStr [] = JBool False \<or>
      JStr [] = JNull"
    by simp
  have check: "validateManifestRequirements examplePlatform falsyNameManifest =
      Some [missingField ''name'', missingField ''manifest_version'']"
    by (simp add: falsyNameManifest_def manifest_check_defs)
  show ?thesis
    using falsy_required_field_reported_missing [OF key field falsy check] check
    by simp
qed

section \<open>The privacy check\<close>

lemma getField_None_iff: "getField v key = None \<longleftrightarrow> v = JUndefined \<or> v = JNull"
  by (cases v) simp_all

lemma getField_None_any: "getField v key = None \<Longrightarrow> getField v key' = None"
  by (simp add: getField_None_iff)

lemma privacy_findings_distinct:
  "identityPermissionDetected \<noteq> privacyPolicyRequired"
  "cookieAccessDetected \<noteq> privacyPolicyRequired"
  by (simp_all add: identityPermissionDetected_def cookieAccessDetected_def
        privacyPolicyRequired_def)

lemma privacy_tabs_only:
  assumes "getField manifest ''permissions'' = Some (JArr [JStr ''tabs''])"
    and "getField manifest ''privacy_policy'' = Some policy"
  shows "validatePrivacyRequirements P manifest =
           Some (if truthy policy then [] else [privacyPolicyRequired])"
  using assms
  by (simp add: validatePrivacyRequirements_def optionalSome_def optionalIncludes_def
        nullish_def data_collection_apis_def)

lemma privacy_frame:
  assumes frame: "\<forall>key. key \<noteq> ''privacy_policy'' \<longrightarrow> getField manifest' key = getField manifest key"
    and policy: "getField manifest' ''privacy_policy'' = Some policy" "truthy policy"
  shows "validatePrivacyRequirements P manifest' =
           map_option (filter (\<lambda>r. r \<noteq> privacyPolicyRequired))
             (validatePrivacyRequirements P manifest)"
proof -
  from frame have perms: "getField manifest' ''permissions'' = getField manifest ''permissions''"
    by simp
  show ?thesis
  proof (cases "getField manifest ''permissions''")
    case None
    with perms show ?thesis
      by (simp add: validatePrivacyRequirements_def)
  next
    case (Some permissions)
    then obtain old where old: "getField manifest ''privacy_policy'' = Some old"
      using getField_None_any [of manifest "''privacy_policy''" "''permissions''"]
      by (cases "getField manifest ''privacy_policy''") simp_all
    show ?thesis
      using perms Some old policy privacy_findings_distinct
      by (cases "optionalSome (\<lambda>p. Some (p \<in> set (map JStr data_collection_apis))) permissions";
          cases "optionalIncludes permissions ''identity''";
          cases "optionalIncludes permissions ''cookies''")
         (simp_all add: validatePrivacyRequirements_def)
  qed
qed

lemma manifest_check_frame:
  assumes "\<forall>key. key \<noteq> ''privacy_policy'' \<longrightarrow> getField manifest' key = getField manifest key"
  shows "validateManifestRequirements P manifest' = validateManifestRequirements P manifest"
proof -
  have e: "getField manifest' ''name'' = getField manifest ''name''"
    "getField manifest' ''version'' = getField manifest ''version''"
    "getField manifest' ''description'' = getField manifest ''description''"
    "getField manifest' ''manifest_version'' = getField manifest ''manifest_version''"
    using assms by simp_all
  have "forEach (requiredFieldBody manifest') required_fields =
      forEach (requiredFieldBody manifest) required_fields"
    by (simp add: required_fields_def requiredFieldBody_def e)
  then show ?thesis
    unfolding validateManifestRequirements_def e by simp
qed

lemma icon_check_frame:
  assumes "\<forall>key. key \<noteq> ''privacy_policy'' \<longrightarrow> getField manifest' key = getField manifest key"
  shows "validateIconRequirements P manifest' files = validateIconRequirements P manifest files"
proof -
  have e: "getField manifest' ''icons'' = getField manifest ''icons''"
    using assms by simp
  show ?thesis
    unfolding validateIconRequirements_def e by (rule refl)
qed

lemma permission_check_frame:
  assumes "\<forall>key. key \<noteq> ''privacy_policy'' \<longrightarrow> getField manifest' key = getField manifest key"
  shows "validatePermissionRequirements P manifest' = validatePermissionRequirements P manifest"
proof -
  have e: "getField manifest' ''permissions'' = getField manifest ''permissions''"
    "getField manifest' ''manifest_version'' = getField manifest ''manifest_version''"
    using assms by simp_all
  show ?thesis
    unfolding validatePermissionRequirements_def e by (rule refl)
qed

lemma content_check_frame:
  assumes "\<forall>key. key \<noteq> ''privacy_policy'' \<longrightarrow> getField manifest' key = getField manifest key"
  shows "validateContentPolicies P manifest' files = validateContentPolicies P manifest files"
proof -
  have e: "getField manifest' ''name'' = getField manifest ''name''"
    "getField manifest' ''description'' = getField manifest ''description''"
    "getField manifest' ''content_scripts'' = getField manifest ''content_scripts''"
    "getField manifest' ''background'' = getField manifest ''background''"
    "getField manifest' ''action'' = getField manifest ''action''"
    "getField manifest' ''browser_action'' = getField manifest ''browser_action''"
    "getField manifest' ''options_page'' = getField manifest ''options_page''"
    using assms by simp_all
  show ?thesis
    unfolding validateContentPolicies_def e by (rule refl)
qed

text \<open>
  Claim C6, as amended. A manifest with the permissions \<^verbatim>\<open>["tabs"]\<close> and no
  \<^verbatim>\<open>privacy_policy\<close> gets exactly one finding from the privacy check, the critical
  \<^verbatim>\<open>Privacy policy required\<close>. For every manifest, a manifest that differs from it in
  the field \<^verbatim>\<open>privacy_policy\<close> only and binds that field to a value that tests true gets
  the same privacy findings with that critical finding removed, and the same outcome from
  the manifest, icon, permission and content checks.
\<close>

theorem privacy_policy_gating_and_frame:
  assumes frame: "\<forall>key. key \<noteq> ''privacy_policy'' \<longrightarrow> getField manifest' key = getField manifest key"
    and policy: "getField manifest' ''privacy_policy'' = Some policy" "truthy policy"
  shows "(getField manifest ''permissions'' = Some (JArr [JStr ''tabs'']) \<and>
          getField manifest ''privacy_policy'' = Some JUndefined \<longrightarrow>
            validatePrivacyRequirements P manifest = Some [privacyPolicyRequired] \<and>
            validatePrivacyRequirements P manifest' = Some []) \<and>
         title privacyPolicyRequired = ''Privacy policy required'' \<and>
         severity privacyPolicyRequired = Critical \<and>
         validatePrivacyRequirements P manifest' =
           map_option (filter (\<lambda>r. r \<noteq> privacyPolicyRequired))
             (validatePrivacyRequirements P manifest) \<and>
         validateManifestRequirements P manifest' = validateManifestRequirements P manifest \<and>
         validateIconRequirements P manifest' files = validateIconRequirements P manifest files \<and>
         validatePermissionRequirements P manifest' = validatePermissionRequirements P manifest \<and>
         validateContentPolicies P manifest' files = validateContentPolicies P manifest files"
proof -
  have gate: "validatePrivacyRequirements P manifest = Some [privacyPolicyRequired] \<and>
      validatePrivacyRequirements P manifest' = Some []"
    if "getField manifest ''permissions'' = Some (JArr [JStr ''tabs''])"
      and "getField manifest ''privacy_policy'' = Some JUndefined"
  proof -
    from frame that(1) have "getField manifest' ''permissions'' = Some (JArr [JStr ''tabs''])"
      by simp
    then show ?thesis
      using privacy_tabs_only [OF that(1) that(2), of P] privacy_tabs_only [OF _ policy(1), of P]
        policy(2)
      by simp
  qed
  show ?thesis
    using gate privacy_frame [OF frame policy] manifest_check_frame [OF frame]
      icon_check_frame [OF frame] permission_check_frame [OF frame] content_check_frame [OF frame]
    by (simp add: privacyPolicyRequired_def)
qed

theorem privacy_policy_gating_and_frame_witness:
  "validatePrivacyRequirements examplePlatform tabsManifest = Some [privacyPolicyRequired] \<and>
   validatePrivacyRequirements examplePlatform tabsPolicyManifest = Some [] \<and>
   validatePermissionRequirements examplePlatform tabsPolicyManifest =
     validatePermissionRequirements examplePlatform tabsManifest \<and>
   validatePermissionRequirements examplePlatform tabsManifest = Some [broadPermission ''tabs'']"
proof -
  have frame: "\<forall>key. key \<noteq> ''privacy_policy'' \<longrightarrow>
      getField tabsPolicyManifest key = getField tabsManifest key"
    by (simp add: tabsPolicyManifest_def tabsManifest_def ownProperty_def)
  have policy: "getField tabsPolicyManifest ''privacy_policy'' = Some (JStr ''https://example.com/policy'')"
    "truthy (JStr ''https://example.com/policy'')"
    by (simp_all add: tabsPolicyManifest_def ownProperty_def)
  have before: "getField tabsManifest ''permissions'' = Some (JArr [JStr ''tabs''])"
    "getField tabsManifest ''privacy_policy'' = Some JUndefined"
    by (simp_all add: tabsManifest_def ownProperty_def)
  have perms: "validatePermissionRequirements examplePlatform tabsManifest =
      Some [broadPermission ''tabs'']"
    by (simp add: tabsManifest_def validatePermissionRequirements_def ownProperty_def
          dangerousBody_def greaterThanNum_def dangerous_def)
  show ?thesis
    using privacy_policy_gating_and_frame [OF frame policy, where P = examplePlatform] before perms
    by simp
qed

text \<open>
  The claim as stated fails when the field that is added tests false: the check is
  \<^verbatim>\<open>!manifest.privacy_policy\<close>, so adding \<^verbatim>\<open>"privacy_policy": ""\<close> to the manifest with
  the permissions \<^verbatim>\<open>["tabs"]\<close> leaves the critical finding in place.
\<close>

theorem empty_privacy_policy_keeps_finding:
  "validatePrivacyRequirements examplePlatform tabsManifest = Some [privacyPolicyRequired] \<and>
   getField tabsManifest ''privacy_policy'' = Some JUndefined \<and>
   getField tabsEmptyPolicyManifest ''privacy_policy'' = Some (JStr []) \<and>
   getField tabsEmptyPolicyManifest ''permissions'' = getField tabsManifest ''permissions'' \<and>
   validatePrivacyRequirements examplePlatform tabsEmptyPolicyManifest =
     Some [privacyPolicyRequired]"
  by (simp add: tabsManifest_def tabsEmptyPolicyManifest_def validatePrivacyRequirements_def
        ownProperty_def optionalSome_def optionalIncludes_def nullish_def data_collection_apis_def)

section \<open>The content check\<close>

lemma forEach_titles:
  assumes "forEach body xs = Some r"
    and "\<And>x r'. body x = Some r' \<Longrightarrow> title ` set r' \<subseteq> S"
  shows "title ` set r \<subseteq> S"
  using assms(1)
proof (induction xs arbitrary: r)
  case Nil
  then show ?case by simp
next
  case (Cons x xs)
  then obtain a b where a: "body x = Some a" and b: "forEach body xs = Some b" and r: "r = a @ b"
    by (auto simp: bind_eq_Some_conv)
  from assms(2) [OF a] Cons.IH [OF b] r show ?case
    by (simp add: image_Un)
qed

lemma prohibited_titles:
  assumes "forEach (prohibitedBody textContent) prohibited_content = Some kw"
  shows "title ` set kw \<subseteq> {''Potentially prohibited content''}"
  by (rule forEach_titles [OF assms]) (auto simp: prohibitedBody_def prohibitedContent_def)

lemma totalSize_foldl:
  "foldl (\<lambda>sum file. sum + file_size file) a files = a + sum_list (map file_size files)"
  by (induction files arbitrary: a) simp_all

lemma totalSize_sum_list: "totalSize files = sum_list (map file_size files)"
  by (simp add: totalSize_def totalSize_foldl)

lemma validateContentPolicies_parts:
  assumes "validateContentPolicies P manifest files = Some results"
  shows "\<exists>kw content_scripts scripts background action browser_action options_page.
           title ` set kw \<subseteq> {''Potentially prohibited content''} \<and>
           getField manifest ''content_scripts'' = Some content_scripts \<and>
           hasContentScripts P content_scripts = Some scripts \<and>
           getField manifest ''background'' = Some background \<and>
           getField manifest ''action'' = Some action \<and>
           getField manifest ''browser_action'' = Some browser_action \<and>
           getField manifest ''options_page'' = Some options_page \<and>
           results =
             (if totalSize files > max_package_size then [packageTooLarge (totalSize files)] else []) @
             kw @
             (if (if scripts then 1 else 0) +
                 (if truthy background then 1 else 0) +
                 (if truthy action \<or> truthy browser_action then 1 else 0) +
                 (if truthy options_page then 1 else 0) > (2 :: nat)
              then [multipleFunctionalities] else [])"
proof -
  from assms obtain name description joined kw content_scripts scripts background action
      browser_action options_page where
    kw: "forEach (prohibitedBody (toLowerCase P joined)) prohibited_content = Some kw" and
    f: "getField manifest ''content_scripts'' = Some content_scripts"
      "hasContentScripts P content_scripts = Some scripts"
      "getField manifest ''background'' = Some background"
      "getField manifest ''action'' = Some action"
      "getField manifest ''browser_action'' = Some browser_action"
      "getField manifest ''options_page'' = Some options_page" and
    results: "results =
             (if totalSize files > max_package_size then [packageTooLarge (totalSize files)] else []) @
             kw @
             (if (if scripts then 1 else 0) +
                 (if truthy background then 1 else 0) +
                 (if truthy action \<or> truthy browser_action then 1 else 0) +
                 (if truthy options_page then 1 else 0) > (2 :: nat)
              then [multipleFunctionalities] else [])"
    unfolding validateContentPolicies_def bind_eq_Some_conv Let_def by (elim exE conjE) blast
  show ?thesis
    by (rule exI [of _ kw], rule exI [of _ content_scripts], rule exI [of _ scripts],
        rule exI [of _ background], rule exI [of _ action], rule exI [of _ browser_action],
        rule exI [of _ options_page])
       (use prohibited_titles [OF kw] f results in simp)
qed

lemma purpose_count:
  "((if a then 1 else 0) + (if b then 1 else 0) + (if c then 1 else 0) + (if d then 1 else 0) :: nat) =
     length (filter id [a, b, c, d])"
  by simp

lemma content_titles:
  "title (packageTooLarge n) = ''Package too large''"
  "title multipleFunctionalities = ''Multiple functionalities detected''"
  by (simp_all add: packageTooLarge_def multipleFunctionalities_def)

lemma hasContentScripts_array:
  "hasContentScripts P (JArr xs) = Some (xs \<noteq> [])"
  by (simp add: hasContentScripts_def nullish_def greaterThanNum_def)

lemma hasContentScripts_nullish:
  "nullish v \<Longrightarrow> hasContentScripts P v = Some False"
  by (simp add: hasContentScripts_def greaterThanNum_def)

lemma purpose_count_findings:
  assumes cs: "getField manifest ''content_scripts'' = Some content_scripts"
    and scripts: "hasContentScripts P content_scripts = Some scripts"
    and bg: "getField manifest ''background'' = Some background"
    and action: "getField manifest ''action'' = Some action"
    and browser_action: "getField manifest ''browser_action'' = Some browser_action"
    and options_page: "getField manifest ''options_page'' = Some options_page"
    and check: "validateContentPolicies P manifest files = Some results"
  shows "filter (\<lambda>r. title r = ''Multiple functionalities detected'') results =
           (if length (filter id [scripts, truthy background,
                                  truthy action \<or> truthy browser_action,
                                  truthy options_page]) > 2
            then [multipleFunctionalities] else []) \<and>
         title multipleFunctionalities = ''Multiple functionalities detected'' \<and>
         type multipleFunctionalities = Info \<and> severity multipleFunctionalities = Low \<and>
         (nullish content_scripts \<longrightarrow> \<not> scripts) \<and>
         (\<forall>xs. content_scripts = JArr xs \<longrightarrow> scripts = (xs \<noteq> []))"
proof -
  from validateContentPolicies_parts [OF check] cs scripts bg action browser_action options_page
  obtain kw where
    kw: "title ` set kw \<subseteq> {''Potentially prohibited content''}" and
    results: "results =
             (if totalSize files > max_package_size then [packageTooLarge (totalSize files)] else []) @
             kw @
             (if (if scripts then 1 else 0) +
                 (if truthy background then 1 else 0) +
                 (if truthy action \<or> truthy browser_action then 1 else 0) +
                 (if truthy options_page then 1 else 0) > (2 :: nat)
              then [multipleFunctionalities] else [])"
    by auto
  have k: "filter (\<lambda>r. title r = ''Multiple functionalities detected'') kw = []"
    by (rule filter_title_none [OF kw]) simp
  have main: "filter (\<lambda>r. title r = ''Multiple functionalities detected'') results =
           (if length (filter id [scripts, truthy background,
                                  truthy action \<or> truthy browser_action,
                                  truthy options_page]) > 2
            then [multipleFunctionalities] else [])"
    unfolding results purpose_count
    by (simp add: k content_titles)
  have shape: "(nullish content_scripts \<longrightarrow> \<not> scripts) \<and>
         (\<forall>xs. content_scripts = JArr xs \<longrightarrow> scripts = (xs \<noteq> []))"
    using scripts hasContentScripts_array [of P] hasContentScripts_nullish [of content_scripts P]
    by auto
  show ?thesis
    using main shape by (simp add: multipleFunctionalities_def)
qed

text \<open>
  Claim C9, as amended. Whenever the content check returns, and it does on every manifest
  of the declared shape, it has counted the true values among four tests:
  \<^verbatim>\<open>content_scripts?.length > 0\<close> (false when the field is absent or \<^verbatim>\<open>null\<close>, the test
  \<open>xs \<noteq> []\<close> for an array), \<^verbatim>\<open>background\<close> tests true, \<^verbatim>\<open>action\<close> or \<^verbatim>\<open>browser_action\<close>
  tests true, \<^verbatim>\<open>options_page\<close> tests true; and its findings hold the low-severity info
  finding \<^verbatim>\<open>Multiple functionalities detected\<close> once when the count is greater than 2
  and not at all otherwise.
\<close>

theorem purpose_count_rule:
  "(conforms manifest \<longrightarrow> validateContentPolicies P manifest files \<noteq> None) \<and>
   (\<forall>results. validateContentPolicies P manifest files = Some results \<longrightarrow>
      (\<exists>content_scripts scripts background action browser_action options_page.
         getField manifest ''content_scripts'' = Some content_scripts \<and>
         hasContentScripts P content_scripts = Some scripts \<and>
         (nullish content_scripts \<longrightarrow> \<not> scripts) \<and>
         (\<forall>xs. content_scripts = JArr xs \<longrightarrow> scripts = (xs \<noteq> [])) \<and>
         getField manifest ''background'' = Some background \<and>
         getField manifest ''action'' = Some action \<and>
         getField manifest ''browser_action'' = Some browser_action \<and>
         getField manifest ''options_page'' = Some options_page \<and>
         filter (\<lambda>r. title r = ''Multiple functionalities detected'') results =
           (if length (filter id [scripts, truthy background,
                                  truthy action \<or> truthy browser_action,
                                  truthy options_page]) > 2
            then [multipleFunctionalities] else []))) \<and>
   title multipleFunctionalities = ''Multiple functionalities detected'' \<and>
   type multipleFunctionalities = Info \<and> severity multipleFunctionalities = Low"
proof -
  have rule: "\<exists>content_scripts scripts background action browser_action options_page.
         getField manifest ''content_scripts'' = Some content_scripts \<and>
         hasContentScripts P content_scripts = Some scripts \<and>
         (nullish content_scripts \<longrightarrow> \<not> scripts) \<and>
         (\<forall>xs. content_scripts = JArr xs \<longrightarrow> scripts = (xs \<noteq> [])) \<and>
         getField manifest ''background'' = Some background \<and>
         getField manifest ''action'' = Some action \<and>
         getField manifest ''browser_action'' = Some browser_action \<and>
         getField manifest ''options_page'' = Some options_page \<and>
         filter (\<lambda>r. title r = ''Multiple functionalities detected'') results =
           (if length (filter id [scripts, truthy background,
                                  truthy action \<or> truthy browser_action,
                                  truthy options_page]) > 2
            then [multipleFunctionalities] else [])"
    if check: "validateContentPolicies P manifest files = Some results" for results
  proof -
    from validateContentPolicies_parts [OF check]
    obtain kw content_scripts scripts background action browser_action options_page where
      "title ` set kw \<subseteq> {''Potentially prohibited content''}" and
      f: "getField manifest ''content_scripts'' = Some content_scripts"
        "hasContentScripts P content_scripts = Some scripts"
        "getField manifest ''background'' = Some background"
        "getField manifest ''action'' = Some action"
        "getField manifest ''browser_action'' = Some browser_action"
        "getField manifest ''options_page'' = Some options_page" and
      "results =
             (if totalSize files > max_package_size then [packageTooLarge (totalSize files)] else []) @
             kw @
             (if (if scripts then 1 else 0) +
                 (if truthy background then 1 else 0) +
                 (if truthy action \<or> truthy browser_action then 1 else 0) +
                 (if truthy options_page then 1 else 0) > (2 :: nat)
              then [multipleFunctionalities] else [])"
      by blast
    note found = purpose_count_findings [OF f check]
    note count = found [THEN conjunct1]
    note absent = found [THEN conjunct2, THEN conjunct2, THEN conjunct2, THEN conjunct2,
      THEN conjunct1]
    note array = found [THEN conjunct2, THEN conjunct2, THEN conjunct2, THEN conjunct2,
      THEN conjunct2]
    show ?thesis
      by (rule exI [of _ content_scripts], rule exI [of _ scripts], rule exI [of _ background],
          rule exI [of _ action], rule exI [of _ browser_action], rule exI [of _ options_page])
         (rule conjI [OF f(1) conjI [OF f(2) conjI [OF absent conjI [OF array conjI [OF f(3)
            conjI [OF f(4) conjI [OF f(5) conjI [OF f(6) count]]]]]]]])
  qed
  then have all: "\<forall>results. validateContentPolicies P manifest files = Some results \<longrightarrow>
      (\<exists>content_scripts scripts background action browser_action options_page.
         getField manifest ''content_scripts'' = Some content_scripts \<and>
         hasContentScripts P content_scripts = Some scripts \<and>
         (nullish content_scripts \<longrightarrow> \<not> scripts) \<and>
         (\<forall>xs. content_scripts = JArr xs \<longrightarrow> scripts = (xs \<noteq> [])) \<and>
         getField manifest ''background'' = Some background \<and>
         getField manifest ''action'' = Some action \<and>
         getField manifest ''browser_action'' = Some browser_action \<and>
         getField manifest ''options_page'' = Some options_page \<and>
         filter (\<lambda>r. title r = ''Multiple functionalities detected'') results =
           (if length (filter id [scripts, truthy background,
                                  truthy action \<or> truthy browser_action,
                                  truthy options_page]) > 2
            then [multipleFunctionalities] else []))"
    by (intro allI impI)
  have returns: "conforms manifest \<longrightarrow> validateContentPolicies P manifest files \<noteq> None"
    using validateContentPolicies_returns [of manifest P files] by (intro impI)
  have fields: "title multipleFunctionalities = ''Multiple functionalities detected'' \<and>
      type multipleFunctionalities = Info \<and> severity multipleFunctionalities = Low"
    by (simp add: multipleFunctionalities_def)
  show ?thesis
    by (rule conjI [OF returns conjI [OF all fields]])
qed

theorem purpose_count_rule_witness:
  "conforms manyPurposesManifest \<and>
   validateContentPolicies examplePlatform manyPurposesManifest [] = Some [multipleFunctionalities] \<and>
   hasContentScripts examplePlatform (JArr [JObj [(''js'', JArr [JStr ''content.js''])]]) = Some True \<and>
   length (filter id [True, truthy (JObj [(''service_worker'', JStr ''background.js'')]),
                      truthy (JObj []) \<or> truthy JUndefined, truthy JUndefined]) = 3 \<and>
   filter (\<lambda>r. title r = ''Multiple functionalities detected'') [multipleFunctionalities] =
     [multipleFunctionalities]"
proof -
  have c: "conforms manyPurposesManifest"
    by (simp add: manyPurposesManifest_def ownProperty_def)
  have f: "getField manyPurposesManifest ''content_scripts'' =
        Some (JArr [JObj [(''js'', JArr [JStr ''content.js''])]])"
    "hasContentScripts examplePlatform (JArr [JObj [(''js'', JArr [JStr ''content.js''])]]) = Some True"
    "getField manyPurposesManifest ''background'' =
        Some (JObj [(''service_worker'', JStr ''background.js'')])"
    "getField manyPurposesManifest ''action'' = Some (JObj [])"
    "getField manyPurposesManifest ''browser_action'' = Some JUndefined"
    "getField manyPurposesManifest ''options_page'' = Some JUndefined"
    by (simp_all add: manyPurposesManifest_def ownProperty_def hasContentScripts_array)
  have check: "validateContentPolicies examplePlatform manyPurposesManifest [] =
      Some [multipleFunctionalities]"
    by (simp add: manyPurposesManifest_def content_check_defs)
  note inst = purpose_count_rule [where manifest = manyPurposesManifest
      and P = examplePlatform and files = "[]"]
  from inst [THEN conjunct1] c
  have returns: "validateContentPolicies examplePlatform manyPurposesManifest [] \<noteq> None"
    by (rule mp)
  from inst [THEN conjunct2, THEN conjunct1, rule_format, OF check]
  obtain content_scripts scripts background action browser_action options_page where
    g: "getField manyPurposesManifest ''content_scripts'' = Some content_scripts"
      "hasContentScripts examplePlatform content_scripts = Some scripts"
      "getField manyPurposesManifest ''background'' = Some background"
      "getField manyPurposesManifest ''action'' = Some action"
      "getField manyPurposesManifest ''browser_action'' = Some browser_action"
      "getField manyPurposesManifest ''options_page'' = Some options_page" and
    found: "filter (\<lambda>r. title r = ''Multiple functionalities detected'') [multipleFunctionalities] =
           (if length (filter id [scripts, truthy background,
                                  truthy action \<or> truthy browser_action,
                                  truthy options_page]) > 2
            then [multipleFunctionalities] else [])"
    by (elim exE conjE) (rule that; assumption)
  from g f have v: "scripts = True" "background = JObj [(''service_worker'', JStr ''background.js'')]"
    "action = JObj []" "browser_action = JUndefined" "options_page = JUndefined"
    by simp_all
  from found have "filter (\<lambda>r. title r = ''Multiple functionalities detected'')
      [multipleFunctionalities] = [multipleFunctionalities]"
    unfolding v by simp
  with c f(2) check show ?thesis
    by simp
qed

text \<open>
  The claim as stated fails in two ways. A field that is present need not count: with
  \<^verbatim>\<open>content_scripts: []\<close>, \<^verbatim>\<open>background: {}\<close> and \<^verbatim>\<open>action: {}\<close> three of the four fields
  are present, the empty array has length 0, the count is 2 and there is no finding. And
  the count is not reached when the check throws before it: with a name that cannot be
  printed, \<^verbatim>\<open>join\<close> throws, and the manifest whose count would be 3 gets no finding.
\<close>

theorem present_purposes_not_counted:
  "getField emptyScriptsManifest ''content_scripts'' = Some (JArr []) \<and>
   getField emptyScriptsManifest ''background'' = Some (JObj []) \<and>
   getField emptyScriptsManifest ''action'' = Some (JObj []) \<and>
   validateContentPolicies examplePlatform emptyScriptsManifest [] = Some [] \<and>
   getField unprintableNameManifest ''content_scripts'' = Some (JArr [JNull]) \<and>
   hasContentScripts examplePlatform (JArr [JNull]) = Some True \<and>
   getField unprintableNameManifest ''background'' = Some (JBool True) \<and>
   getField unprintableNameManifest ''action'' = Some (JBool True) \<and>
   truthy (JBool True) \<and>
   validateContentPolicies examplePlatform unprintableNameManifest [] = None"
proof -
  have a: "validateContentPolicies examplePlatform emptyScriptsManifest [] = Some []"
    by (simp add: emptyScriptsManifest_def content_check_defs)
  have b: "validateContentPolicies examplePlatform unprintableNameManifest [] = None"
    by (simp add: unprintableNameManifest_def validateContentPolicies_def arrayJoin_def
          ownProperty_def)
  show ?thesis
    by (simp add: a b hasContentScripts_array)
       (simp add: emptyScriptsManifest_def unprintableNameManifest_def ownProperty_def)
qed

lemma toFixed1MiB_rounds:
  "(20 * bytes + 1048576) div 2097152 = nat \<lfloor>10 * (of_nat bytes :: rat) / 1048576 + 1 / 2\<rfloor>"
proof -
  have "10 * (of_nat bytes :: rat) / 1048576 + 1 / 2 =
      of_nat (20 * bytes + 1048576) / of_nat 2097152"
    by (simp add: field_simps)
  then have "\<lfloor>10 * (of_nat bytes :: rat) / 1048576 + 1 / 2\<rfloor> =
      int ((20 * bytes + 1048576) div 2097152)"
    by (simp only: floor_divide_of_nat_eq)
  then show ?thesis by simp
qed

text \<open>
  Claim C7. For every file set, when the sum of the file sizes exceeds 128 MiB the
  findings of the content check hold exactly one \<^verbatim>\<open>Package too large\<close>, a high-severity
  error whose message prints the total in MiB to one decimal place, that is the integer
  nearest to ten times the quotient (the larger on a tie) with a point before its last
  digit; 130 MiB prints as \<^verbatim>\<open>130.0MB\<close>. When the sum is at most 128 MiB there is no
  such finding. The check returns on every manifest of the declared shape.
\<close>

theorem package_size_rule:
  "(conforms manifest \<longrightarrow> validateContentPolicies P manifest files \<noteq> None) \<and>
   (\<forall>results. validateContentPolicies P manifest files = Some results \<longrightarrow>
      (sum_list (map file_size files) > 128 * 1024 * 1024 \<longrightarrow>
         filter (\<lambda>r. title r = ''Package too large'') results =
           [packageTooLarge (sum_list (map file_size files))]) \<and>
      (sum_list (map file_size files) \<le> 128 * 1024 * 1024 \<longrightarrow>
         filter (\<lambda>r. title r = ''Package too large'') results = [])) \<and>
   type (packageTooLarge n) = Error \<and> severity (packageTooLarge n) = High \<and>
   message (packageTooLarge n) =
     ''Extension package is '' @
     decimal (nat \<lfloor>10 * (of_nat n :: rat) / 1048576 + 1 / 2\<rfloor> div 10) @ ''.'' @
     decimal (nat \<lfloor>10 * (of_nat n :: rat) / 1048576 + 1 / 2\<rfloor> mod 10) @ ''MB'' \<and>
   message (packageTooLarge (130 * 1024 * 1024)) = ''Extension package is 130.0MB''"
proof -
  have rule: "(sum_list (map file_size files) > 128 * 1024 * 1024 \<longrightarrow>
         filter (\<lambda>r. title r = ''Package too large'') results =
           [packageTooLarge (sum_list (map file_size files))]) \<and>
      (sum_list (map file_size files) \<le> 128 * 1024 * 1024 \<longrightarrow>
         filter (\<lambda>r. title r = ''Package too large'') results = [])"
    if check: "validateContentPolicies P manifest files = Some results" for results
  proof -
    from validateContentPolicies_parts [OF check]
    obtain kw scripts background action browser_action options_page where
      kw: "title ` set kw \<subseteq> {''Potentially prohibited content''}" and
      parts: "results =
             (if totalSize files > max_package_size then [packageTooLarge (totalSize files)] else []) @
             kw @
             (if (if scripts then 1 else 0) +
                 (if truthy background then 1 else 0) +
                 (if truthy action \<or> truthy browser_action then 1 else 0) +
                 (if truthy options_page then 1 else 0) > (2 :: nat)
              then [multipleFunctionalities] else [])"
      by blast
    define tail where
      "tail = (if (if scripts then 1 else 0) +
                 (if truthy background then 1 else 0) +
                 (if truthy action \<or> truthy browser_action then 1 else 0) +
                 (if truthy options_page then 1 else 0) > (2 :: nat)
              then [multipleFunctionalities] else [])"
    have tail: "tail = [] \<or> tail = [multipleFunctionalities]"
      by (simp add: tail_def)
    have results: "results =
             (if totalSize files > max_package_size then [packageTooLarge (totalSize files)] else []) @
             kw @ tail"
      using parts by (simp only: tail_def)
    have k: "filter (\<lambda>r. title r = ''Package too large'') kw = []"
      by (rule filter_title_none [OF kw]) simp
    have m: "filter (\<lambda>r. title r = ''Package too large'') tail = []"
      using tail by (auto simp: content_titles)
    show ?thesis
      unfolding results
      by (simp add: k m content_titles totalSize_sum_list max_package_size_def)
  qed
  have msg: "message (packageTooLarge n) =
     ''Extension package is '' @
     decimal (nat \<lfloor>10 * (of_nat n :: rat) / 1048576 + 1 / 2\<rfloor> div 10) @ ''.'' @
     decimal (nat \<lfloor>10 * (of_nat n :: rat) / 1048576 + 1 / 2\<rfloor> mod 10) @ ''MB''"
    by (simp add: packageTooLarge_def toFixed1MiB_def toFixed1MiB_rounds Let_def)
  have ex: "message (packageTooLarge (130 * 1024 * 1024)) = ''Extension package is 130.0MB''"
    by (simp add: packageTooLarge_def toFixed1MiB_def decimal.simps digitChars_def)
  show ?thesis
    using rule msg ex validateContentPolicies_returns
    by (simp add: packageTooLarge_def)
qed

theorem package_size_rule_witness:
  "conforms (JObj []) \<and>
   validateContentPolicies examplePlatform (JObj []) largePackage =
     Some [packageTooLarge (130 * 1024 * 1024)] \<and>
   sum_list (map file_size largePackage) = 130 * 1024 * 1024 \<and>
   message (packageTooLarge (130 * 1024 * 1024)) = ''Extension package is 130.0MB''"
proof -
  have c: "conforms (JObj [])"
    by (simp add: ownProperty_def)
  have total: "totalSize largePackage = 130 * 1024 * 1024"
    by (simp add: totalSize_def largePackage_def)
  have check: "validateContentPolicies examplePlatform (JObj []) largePackage =
     Some [packageTooLarge (130 * 1024 * 1024)]"
    unfolding validateContentPolicies_def total
    by (simp add: arrayJoin_def examplePlatform_def exampleToLowerCase_def
          prohibitedBody_def prohibited_content_def hasContentScripts_def nullish_def
          greaterThanNum_def max_package_size_def ownProperty_def)
  show ?thesis
    using package_size_rule [where manifest = "JObj []" and P = examplePlatform
        and files = largePackage and n = 0] c check total
    by (simp add: totalSize_sum_list)
qed

section \<open>The icon check\<close>

lemma endsWith_iff: "endsWith s t \<longleftrightarrow> (\<exists>u. s = u @ t)"
proof
  assume "endsWith s t"
  then have "s = take (length s - length t) s @ t"
    by (metis append_take_drop_id endsWith_def)
  then show "\<exists>u. s = u @ t" ..
next
  assume "\<exists>u. s = u @ t"
  then show "endsWith s t"
    by (auto simp: endsWith_def)
qed

lemma decimal_sizes:
  "decimal 16 = ''16''" "decimal 48 = ''48''" "decimal 128 = ''128''" "decimal 19 = ''19''"
  "decimal 38 = ''38''" "decimal 32 = ''32''" "decimal 64 = ''64''" "decimal 96 = ''96''"
  by (simp_all add: decimal.simps digitChars_def)

lemma findIconFile_string:
  "findIconFile P (JStr path) files =
     Some (find (\<lambda>f. file_name f = path \<or> endsWith (file_name f) path) files)"
  by (induction files) simp_all

lemma iconEntryBody_string:
  "iconEntryBody P files (sz, JStr path) =
     Some (case find (\<lambda>f. file_name f = path \<or> endsWith (file_name f) path) files of
             None \<Rightarrow> [iconFileNotFound path]
           | Some f \<Rightarrow> if file_size f > 2 * 1024 * 1024
                       then [largeIconFile path (file_size f)] else [])"
  by (simp add: iconEntryBody_def findIconFile_string max_file_size_def split: option.split)

lemma requiredSizes_object:
  "forEach (requiredSizeBody (JObj entries)) required_sizes =
     Some (concat (map (\<lambda>sz. if truthy (ownProperty entries (decimal sz)) then []
                               else [missingIcon sz]) [16, 48, 128]))"
  unfolding required_sizes_def
  by (rule forEach_total) (simp add: requiredSizeBody_def)

lemma recommendedSizes_object:
  "forEach (recommendedSizeBody (JObj entries)) recommended_sizes =
     Some (concat (map (\<lambda>sz. if truthy (ownProperty entries (decimal sz)) then []
                               else [recommendedIconMissing sz]) [19, 38, 32, 64, 96]))"
  unfolding recommended_sizes_def
  by (rule forEach_total) (simp add: recommendedSizeBody_def)

lemma iconEntries_strings:
  assumes "\<forall>entry \<in> set entries. isString (snd entry)"
  shows "forEach (iconEntryBody P files) entries =
     Some (concat (map (\<lambda>entry. case snd entry of
                JStr path \<Rightarrow>
                  (case find (\<lambda>f. file_name f = path \<or> endsWith (file_name f) path) files of
                     None \<Rightarrow> [iconFileNotFound path]
                   | Some f \<Rightarrow> if file_size f > 2 * 1024 * 1024
                               then [largeIconFile path (file_size f)] else [])
              | _ \<Rightarrow> []) entries))"
proof (rule forEach_total)
  fix entry
  assume "entry \<in> set entries"
  with assms have "isString (snd entry)" by blast
  then obtain sz path where "entry = (sz, JStr path)"
    by (cases entry, cases "snd entry") simp_all
  then show "iconEntryBody P files entry =
      Some (case snd entry of
                JStr path \<Rightarrow>
                  (case find (\<lambda>f. file_name f = path \<or> endsWith (file_name f) path) files of
                     None \<Rightarrow> [iconFileNotFound path]
                   | Some f \<Rightarrow> if file_size f > 2 * 1024 * 1024
                               then [largeIconFile path (file_size f)] else [])
              | _ \<Rightarrow> [])"
    by (simp add: iconEntryBody_string)
qed

lemma validateIconRequirements_object:
  assumes icons: "getField manifest ''icons'' = Some (JObj entries)"
    and paths: "\<forall>entry \<in> set entries. isString (snd entry)"
  shows "validateIconRequirements P manifest files =
           Some (concat (map (\<lambda>sz. if truthy (ownProperty entries (decimal sz)) then []
                                     else [missingIcon sz]) [16, 48, 128]) @
                 concat (map (\<lambda>sz. if truthy (ownProperty entries (decimal sz)) then []
                                     else [recommendedIconMissing sz]) [19, 38, 32, 64, 96]) @
                 concat (map (\<lambda>entry. case snd entry of
                     JStr path \<Rightarrow>
                       (case find (\<lambda>f. file_name f = path \<or> endsWith (file_name f) path) files of
                          None \<Rightarrow> [iconFileNotFound path]
                        | Some f \<Rightarrow> if file_size f > 2 * 1024 * 1024
                                    then [largeIconFile path (file_size f)] else [])
                   | _ \<Rightarrow> []) entries))"
  unfolding validateIconRequirements_def
  by (simp only: icons requiredSizes_object recommendedSizes_object iconEntries_strings [OF paths]
        objectEntries.simps truthy.simps bind.simps not_True_eq_False if_False)


lemma icon_finding_fields:
  "title (iconFileNotFound path) = ''Icon file not found''"
  "type (iconFileNotFound path) = Error" "severity (iconFileNotFound path) = High"
  "title (largeIconFile path n) = ''Large icon file''"
  "type (largeIconFile path n) = Warning" "severity (largeIconFile path n) = Medium"
  "severity (missingIcon sz) = High" "type (missingIcon sz) = Error"
  "severity (recommendedIconMissing sz) = Low"
  by (simp_all add: iconFileNotFound_def largeIconFile_def missingIcon_def
        recommendedIconMissing_def)

lemma largeIconFile_message:
  "message (largeIconFile path n) =
     ''Icon '' @ path @ '' is '' @
     decimal (nat \<lfloor>10 * (of_nat n :: rat) / 1048576 + 1 / 2\<rfloor> div 10) @ ''.'' @
     decimal (nat \<lfloor>10 * (of_nat n :: rat) / 1048576 + 1 / 2\<rfloor> mod 10) @ ''MB''"
  by (simp add: largeIconFile_def toFixed1MiB_def toFixed1MiB_rounds Let_def)

lemma find_match:
  "(find (\<lambda>f. file_name f = path \<or> endsWith (file_name f) path) files = None \<longleftrightarrow>
      \<not> (\<exists>f \<in> set files. file_name f = path \<or> (\<exists>u. file_name f = u @ path))) \<and>
   (find (\<lambda>f. file_name f = path \<or> endsWith (file_name f) path) files = Some g \<longrightarrow>
      g \<in> set files \<and> (file_name g = path \<or> (\<exists>u. file_name g = u @ path)))"
  by (auto simp: find_None_iff find_Some_iff endsWith_iff)

text \<open>
  Claim C5. When \<^verbatim>\<open>icons\<close> is a mapping from sizes to paths, the findings of the icon
  check are those for the required sizes, those for the recommended sizes, and then, for
  each declared entry in order: the high-severity error \<^verbatim>\<open>Icon file not found\<close> when no
  file has a name equal to the path or ending with it; otherwise, for the first such file,
  the medium-severity warning \<^verbatim>\<open>Large icon file\<close> when its size exceeds 2 MiB, with the
  size printed in MiB to one decimal place, and nothing when it does not. With
  \<^verbatim>\<open>icons = {"128": "icon128.png"}\<close> and no matching file, the high-severity findings are
  that error and the two errors for the missing 16px and 48px icons.
\<close>

theorem icon_file_resolution:
  assumes icons: "getField manifest ''icons'' = Some (JObj entries)"
    and paths: "\<forall>entry \<in> set entries. isString (snd entry)"
  shows "validateIconRequirements P manifest files =
           Some (concat (map (\<lambda>sz. if truthy (ownProperty entries (decimal sz)) then []
                                     else [missingIcon sz]) [16, 48, 128]) @
                 concat (map (\<lambda>sz. if truthy (ownProperty entries (decimal sz)) then []
                                     else [recommendedIconMissing sz]) [19, 38, 32, 64, 96]) @
                 concat (map (\<lambda>entry. case snd entry of
                     JStr path \<Rightarrow>
                       (case find (\<lambda>f. file_name f = path \<or> endsWith (file_name f) path) files of
                          None \<Rightarrow> [iconFileNotFound path]
                        | Some f \<Rightarrow> if file_size f > 2 * 1024 * 1024
                                    then [largeIconFile path (file_size f)] else [])
                   | _ \<Rightarrow> []) entries)) \<and>
         (find (\<lambda>f. file_name f = path \<or> endsWith (file_name f) path) files = None \<longleftrightarrow>
            \<not> (\<exists>f \<in> set files. file_name f = path \<or> (\<exists>u. file_name f = u @ path))) \<and>
         (find (\<lambda>f. file_name f = path \<or> endsWith (file_name f) path) files = Some g \<longrightarrow>
            g \<in> set files \<and> (file_name g = path \<or> (\<exists>u. file_name g = u @ path))) \<and>
         title (iconFileNotFound path) = ''Icon file not found'' \<and>
         type (iconFileNotFound path) = Error \<and> severity (iconFileNotFound path) = High \<and>
         title (largeIconFile path n) = ''Large icon file'' \<and>
         type (largeIconFile path n) = Warning \<and> severity (largeIconFile path n) = Medium \<and>
         message (largeIconFile path n) =
           ''Icon '' @ path @ '' is '' @
           decimal (nat \<lfloor>10 * (of_nat n :: rat) / 1048576 + 1 / 2\<rfloor> div 10) @ ''.'' @
           decimal (nat \<lfloor>10 * (of_nat n :: rat) / 1048576 + 1 / 2\<rfloor> mod 10) @ ''MB'' \<and>
         (entries = [(''128'', JStr ''icon128.png'')] \<and>
          \<not> (\<exists>f \<in> set files. file_name f = ''icon128.png'' \<or>
                                 (\<exists>u. file_name f = u @ ''icon128.png'')) \<longrightarrow>
            validateIconRequirements P manifest files =
              Some [missingIcon 16, missingIcon 48,
                    recommendedIconMissing 19, recommendedIconMissing 38,
                    recommendedIconMissing 32, recommendedIconMissing 64,
                    recommendedIconMissing 96, iconFileNotFound ''icon128.png''] \<and>
            filter (\<lambda>r. severity r = High)
              [missingIcon 16, missingIcon 48,
               recommendedIconMissing 19, recommendedIconMissing 38,
               recommendedIconMissing 32, recommendedIconMissing 64,
               recommendedIconMissing 96, iconFileNotFound ''icon128.png''] =
              [missingIcon 16, missingIcon 48, iconFileNotFound ''icon128.png''])"
proof -
  note general = validateIconRequirements_object [OF icons paths, of P files]
  have example: "validateIconRequirements P manifest files =
              Some [missingIcon 16, missingIcon 48,
                    recommendedIconMissing 19, recommendedIconMissing 38,
                    recommendedIconMissing 32, recommendedIconMissing 64,
                    recommendedIconMissing 96, iconFileNotFound ''icon128.png'']"
    if e: "entries = [(''128'', JStr ''icon128.png'')]"
      and none: "\<not> (\<exists>f \<in> set files. file_name f = ''icon128.png'' \<or>
                                 (\<exists>u. file_name f = u @ ''icon128.png''))"
  proof -
    from none have "find (\<lambda>f. file_name f = ''icon128.png'' \<or>
        endsWith (file_name f) ''icon128.png'') files = None"
      using find_match [of "''icon128.png''" files] by blast
    then show ?thesis
      unfolding general by (simp add: e decimal_sizes ownProperty_def)
  qed
  have high: "filter (\<lambda>r. severity r = High)
              [missingIcon 16, missingIcon 48,
               recommendedIconMissing 19, recommendedIconMissing 38,
               recommendedIconMissing 32, recommendedIconMissing 64,
               recommendedIconMissing 96, iconFileNotFound ''icon128.png''] =
              [missingIcon 16, missingIcon 48, iconFileNotFound ''icon128.png'']"
    by (simp add: icon_finding_fields)
  show ?thesis
    using general example high find_match [of path files g] icon_finding_fields(1-6) [of path]
      largeIconFile_message [of path n]
    by blast
qed


theorem icon_file_resolution_witness:
  "validateIconRequirements examplePlatform iconsManifest iconFiles =
     Some [missingIcon 48,
           recommendedIconMissing 19, recommendedIconMissing 38, recommendedIconMissing 32,
           recommendedIconMissing 64, recommendedIconMissing 96,
           largeIconFile ''icons/big.png'' (3 * 1024 * 1024)] \<and>
   message (largeIconFile ''icons/big.png'' (3 * 1024 * 1024)) = ''Icon icons/big.png is 3.0MB'' \<and>
   validateIconRequirements examplePlatform icon128Manifest [] =
     Some [missingIcon 16, missingIcon 48,
           recommendedIconMissing 19, recommendedIconMissing 38, recommendedIconMissing 32,
           recommendedIconMissing 64, recommendedIconMissing 96,
           iconFileNotFound ''icon128.png'']"
proof -
  have i1: "getField iconsManifest ''icons'' =
      Some (JObj [(''16'', JStr ''icon16.png''), (''128'', JStr ''icons/big.png'')])"
    by (simp add: iconsManifest_def ownProperty_def)
  have p1: "\<forall>entry \<in> set [(''16'', JStr ''icon16.png''), (''128'', JStr ''icons/big.png'')].
      isString (snd entry)"
    by simp
  have i2: "getField icon128Manifest ''icons'' = Some (JObj [(''128'', JStr ''icon128.png'')])"
    by (simp add: icon128Manifest_def ownProperty_def)
  have p2: "\<forall>entry \<in> set [(''128'', JStr ''icon128.png'')]. isString (snd entry)"
    by simp
  have a: "validateIconRequirements examplePlatform iconsManifest iconFiles =
     Some [missingIcon 48,
           recommendedIconMissing 19, recommendedIconMissing 38, recommendedIconMissing 32,
           recommendedIconMissing 64, recommendedIconMissing 96,
           largeIconFile ''icons/big.png'' (3 * 1024 * 1024)]"
    unfolding icon_file_resolution [OF i1 p1, THEN conjunct1]
    by (simp add: decimal_sizes ownProperty_def iconFiles_def endsWith_def)
  have b: "validateIconRequirements examplePlatform icon128Manifest [] =
     Some [missingIcon 16, missingIcon 48,
           recommendedIconMissing 19, recommendedIconMissing 38, recommendedIconMissing 32,
           recommendedIconMissing 64, recommendedIconMissing 96,
           iconFileNotFound ''icon128.png'']"
    unfolding icon_file_resolution [OF i2 p2, THEN conjunct1]
    by (simp add: decimal_sizes ownProperty_def)
  have c: "message (largeIconFile ''icons/big.png'' (3 * 1024 * 1024)) =
      ''Icon icons/big.png is 3.0MB''"
    by (simp add: largeIconFile_def toFixed1MiB_def decimal.simps digitChars_def)
  from a b c show ?thesis by simp
qed

end
